theory Spec2Isabelle
  imports Complex_Main "HOL-Library.Word" "HOL-Library.Char_ord" "HOL-Library.List_Lexorder"
    "HOL-Library.Product_Lexorder"
begin

section \<open>Data model of app.py\<close>

text \<open>
  The three data sources are tables. A table is the list of its rows, in file order; a
  cell that pandas reads as missing is \<open>None\<close>. The zip columns are strings in every
  table: each is passed through \<open>astype(str)\<close>. The label columns of the hierarchy
  (territory, district, region) keep the type that \<open>read_csv\<close> gives them: a cell is a
  string or a number, and a number is kept as the number it denotes (pandas turns a column
  of integers into floats once a null enters it, with the same value up to \<open>2 ^ 53\<close>). A
  geometry is the set of points it covers, and the union that geopandas takes of a group
  of geometries is the union of these sets.
\<close>

datatype label = Str string | Num rat

text \<open>
  The \<open>calls\<close> column is numeric, and its type is that of its cells: \<open>'n\<close> below, with
  the arithmetic of the column passed along as a \<open>dtype\<close>. A count of rows is an int64.
\<close>

record 'p zip_geometry =
  zg_ZCTA5CE20 :: string
  zg_geometry :: "'p set"

record 'n call_plan_row =
  cp_zip :: string
  cp_calls :: 'n
  cp_hcpid :: "string option"

record hierarchy_row =
  hr_zip :: string
  hr_territory :: "label option"
  hr_district :: "label option"
  hr_region :: "label option"

text \<open>Rows of \<open>zip_aggregations\<close>: one per zip of the call plan.\<close>

record 'n zip_aggregation =
  za_ZCTA5CE20 :: string
  za_calls :: 'n
  za_hcp_count :: "64 word"

text \<open>Rows of \<open>merged_df\<close>: the aggregation columns and the hierarchy columns, still nullable.\<close>

record 'n merged_row =
  mr_ZCTA5CE20 :: string
  mr_calls :: 'n
  mr_hcp_count :: "64 word"
  mr_territory :: "label option"
  mr_district :: "label option"
  mr_region :: "label option"

text \<open>Rows of \<open>master_gdf\<close>, after \<open>fillna('Unassigned')\<close>.\<close>

record ('n, 'p) zone_record =
  ZCTA5CE20 :: string
  geometry :: "'p set"
  calls :: 'n
  hcp_count :: "64 word"
  territory :: label
  district :: label
  region :: label

text \<open>Rows of the frame that \<open>dissolve\<close> returns, after \<open>reset_index\<close> and the renaming to \<open>name\<close>.\<close>

record ('n, 'p) dissolved_row =
  d_name :: label
  d_geometry :: "'p set"
  d_calls :: 'n
  d_hcp_count :: "64 word"

text \<open>Rows of the answer of \<open>/data\<close>: name, calls, hcp_count, threshold, geometry.\<close>

record ('n, 'p) aggregated_unit =
  name :: label
  agg_calls :: 'n
  agg_hcp_count :: "64 word"
  threshold :: int
  agg_geometry :: "'p set"

text \<open>
  An error answer, status 500 in every case: the message of the JSON body that a handler
  of the route writes, or the \<open>TypeError\<close> that no handler of the route catches.
\<close>

datatype error = Error500 string | TypeError

section \<open>Configuration\<close>

definition TERRITORY_WORKLOAD_THRESHOLD :: int where
  "TERRITORY_WORKLOAD_THRESHOLD = 250"

section \<open>Numeric columns\<close>

text \<open>
  A float64 cell: a finite double \<open>m * 2 ^ e\<close>, an infinity, or NaN, which is also how a
  blank cell of a numeric column reads. Finite results are kept with an odd mantissa (zero
  as \<open>Finite 0 0\<close>), so that equal doubles are equal terms.
\<close>

datatype f64 = Finite int int | PosInf | NegInf | NaN

fun bit_length :: "nat \<Rightarrow> nat" where
  "bit_length n = (if n = 0 then 0 else Suc (bit_length (n div 2)))"

declare bit_length.simps [simp del]

function normalize :: "int \<Rightarrow> int \<Rightarrow> int \<times> int" where
  "normalize m e =
     (if m = 0 then (0, 0)
      else if even m then normalize (m div 2) (e + 1)
      else (m, e))"
  by pat_completeness auto
termination
  by (relation "measure (\<lambda>(m, e). nat \<bar>m\<bar>)") auto

declare normalize.simps [simp del]

text \<open>
  IEEE 754 rounding of the exact value \<open>m * 2 ^ e\<close> to binary64, to nearest and ties to
  even: 53 bits of mantissa, no exponent below -1074, and infinity from \<open>2 ^ 1024\<close> on.
\<close>

definition round_f64 :: "int \<Rightarrow> int \<Rightarrow> f64" where
  "round_f64 m e =
     (let k = max (int (bit_length (nat \<bar>m\<bar>)) - 53) (- 1074 - e);
          a = (if k \<le> 0 then \<bar>m\<bar>
               else let d = 2 ^ nat k; q = \<bar>m\<bar> div d; r = \<bar>m\<bar> mod d; h = d div 2
                    in if r < h then q else if h < r then q + 1
                       else if even q then q else q + 1);
          e' = (if k \<le> 0 then e else e + k)
      in if 1024 < int (bit_length (nat a)) + e' then (if 0 < m then PosInf else NegInf)
         else case normalize (sgn m * a) e' of (m', e'') \<Rightarrow> Finite m' e'')"

fun fneg :: "f64 \<Rightarrow> f64" where
  "fneg (Finite m e) = Finite (- m) e"
| "fneg PosInf = NegInf"
| "fneg NegInf = PosInf"
| "fneg NaN = NaN"

fun fadd :: "f64 \<Rightarrow> f64 \<Rightarrow> f64" where
  "fadd (Finite m1 e1) (Finite m2 e2) =
     (let e = min e1 e2
      in round_f64 (m1 * 2 ^ nat (e1 - e) + m2 * 2 ^ nat (e2 - e)) e)"
| "fadd NaN y = NaN"
| "fadd x NaN = NaN"
| "fadd PosInf NegInf = NaN"
| "fadd NegInf PosInf = NaN"
| "fadd PosInf y = PosInf"
| "fadd NegInf y = NegInf"
| "fadd x PosInf = PosInf"
| "fadd x NegInf = NegInf"

definition fsub :: "f64 \<Rightarrow> f64 \<Rightarrow> f64" where
  "fsub x y = fadd x (fneg y)"

text \<open>
  The arithmetic of a numeric column: its sum, its difference, its zero, and which of its
  values count as missing. An int64 column wraps around and has no missing value.
\<close>

record 'n dtype =
  dt_add :: "'n \<Rightarrow> 'n \<Rightarrow> 'n"
  dt_sub :: "'n \<Rightarrow> 'n \<Rightarrow> 'n"
  dt_zero :: 'n
  dt_isna :: "'n \<Rightarrow> bool"

definition int64 :: "64 word dtype" where
  "int64 = \<lparr>dt_add = (+), dt_sub = (-), dt_zero = 0, dt_isna = (\<lambda>v. False)\<rparr>"

definition float64 :: "f64 dtype" where
  "float64 = \<lparr>dt_add = fadd, dt_sub = fsub, dt_zero = Finite 0 0, dt_isna = (\<lambda>v. v = NaN)\<rparr>"

text \<open>
  The \<open>sum\<close> of a \<open>groupby\<close>, as pandas computes it for one group: missing values are
  skipped, the others are added in row order with a running compensation (Kahan), and a
  compensation that is NaN is reset to zero.
\<close>

definition group_sum_step :: "'n dtype \<Rightarrow> 'n \<times> 'n \<Rightarrow> 'n \<Rightarrow> 'n \<times> 'n" where
  "group_sum_step dt acc val =
     (if dt_isna dt val then acc
      else let y = dt_sub dt val (snd acc);
               t = dt_add dt (fst acc) y;
               c = dt_sub dt (dt_sub dt t (fst acc)) y
           in (t, if dt_isna dt c then dt_zero dt else c))"

definition group_sum :: "'n dtype \<Rightarrow> 'n list \<Rightarrow> 'n" where
  "group_sum dt vals = fst (foldl (group_sum_step dt) (dt_zero dt, dt_zero dt) vals)"

section \<open>Library operations\<close>

text \<open>
  \<open>str.lower\<close> on the code points below 256: the ASCII capitals and the Latin-1 capitals
  (all of 192..222 but the multiplication sign 215) move up by 32.
\<close>

definition lower_char :: "char \<Rightarrow> char" where
  "lower_char c =
     (let n = (of_char c :: nat)
      in if (65 \<le> n \<and> n \<le> 90) \<or> (192 \<le> n \<and> n \<le> 222 \<and> n \<noteq> 215)
         then char_of (n + 32) else c)"

definition lower :: "string \<Rightarrow> string" where
  "lower s = map lower_char s"

text \<open>
  The order in which pandas sorts group keys: numbers by value, then strings by code
  points. Python's \<open>sorted\<close> uses the same order on a list of numbers and on a list of
  strings, and raises \<open>TypeError\<close> when it has to compare a number with a string, which it
  does as soon as the list holds both.
\<close>

fun label_key :: "label \<Rightarrow> nat \<times> rat \<times> string" where
  "label_key (Num q) = (0, q, [])"
| "label_key (Str s) = (1, 0, s)"

fun is_str :: "label \<Rightarrow> bool" where
  "is_str (Str s) = True"
| "is_str (Num q) = False"

fun is_num :: "label \<Rightarrow> bool" where
  "is_num (Str s) = False"
| "is_num (Num q) = True"

definition py_sorted :: "label list \<Rightarrow> error + label list" where
  "py_sorted xs =
     (if list_ex is_num xs \<and> list_ex is_str xs then Inl TypeError
      else Inr (sort_key label_key xs))"

text \<open>The keys of a \<open>groupby\<close>: the distinct non-null values of the column, in order.\<close>

definition group_keys :: "('r \<Rightarrow> label option) \<Rightarrow> 'r list \<Rightarrow> label list" where
  "group_keys col rows = sort_key label_key (remdups (List.map_filter col rows))"

text \<open>\<open>df.groupby(by)[col].nunique()\<close>: per key, the number of distinct non-null values.\<close>

definition groupby_nunique ::
  "('r \<Rightarrow> label option) \<Rightarrow> ('r \<Rightarrow> label option) \<Rightarrow> 'r list \<Rightarrow> (label \<times> nat) list" where
  "groupby_nunique by col rows =
     map (\<lambda>k. (k, length (remdups (List.map_filter col (filter (\<lambda>r. by r = Some k) rows)))))
       (group_keys by rows)"

text \<open>\<open>fillna\<close> on one cell.\<close>

definition fillna :: "'a \<Rightarrow> 'a option \<Rightarrow> 'a" where
  "fillna d v = (case v of None \<Rightarrow> d | Some x \<Rightarrow> x)"

text \<open>
  \<open>gdf.dissolve(by=col, aggfunc={'calls': 'sum', 'hcp_count': 'sum'})\<close> followed by
  \<open>reset_index\<close>: one row per distinct key, keys in order; the geometry is the union of the
  group, the two metrics are summed, each in the arithmetic of its column. The union is
  computed by GEOS and may raise; which groups it raises on is the parameter \<open>raises\<close>, and
  an exception anywhere leaves no frame.
\<close>

definition dissolve_groups ::
  "(('n, 'p) zone_record \<Rightarrow> label) \<Rightarrow> ('n, 'p) zone_record list
     \<Rightarrow> (label \<times> ('n, 'p) zone_record list) list" where
  "dissolve_groups by rows =
     map (\<lambda>k. (k, filter (\<lambda>r. by r = k) rows)) (sort_key label_key (remdups (map by rows)))"

definition dissolve ::
  "'n dtype \<Rightarrow> ('p set list \<Rightarrow> bool) \<Rightarrow> (('n, 'p) zone_record \<Rightarrow> label)
     \<Rightarrow> ('n, 'p) zone_record list \<Rightarrow> ('n, 'p) dissolved_row list option" where
  "dissolve dt raises by rows =
     (let groups = dissolve_groups by rows
      in if list_ex (\<lambda>kg. raises (map geometry (snd kg))) groups then None
         else Some (map (\<lambda>kg. \<lparr>d_name = fst kg,
                               d_geometry = \<Union> (set (map geometry (snd kg))),
                               d_calls = group_sum dt (map calls (snd kg)),
                               d_hcp_count = group_sum int64 (map hcp_count (snd kg))\<rparr>)
                      groups))"

text \<open>A GEOS that never raises.\<close>

definition never_raises :: "'p set list \<Rightarrow> bool" where
  "never_raises gs = False"

text \<open>
  The column of the master frame with a given name, as \<open>dissolve(by=...)\<close> looks it up. The
  zip column holds strings.
\<close>

definition zip_label :: "('n, 'p) zone_record \<Rightarrow> label" where
  "zip_label r = Str (ZCTA5CE20 r)"

definition column :: "string \<Rightarrow> ('n, 'p) zone_record \<Rightarrow> label" where
  "column c r =
     (if c = ''territory'' then territory r
      else if c = ''district'' then district r
      else if c = ''region'' then region r
      else zip_label r)"

section \<open>Loading and pre-processing\<close>

text \<open>
  \<open>call_plan_df.groupby('zip').agg(calls=('calls', 'sum'), hcp_count=('hcpid', 'count'))\<close>:
  the sum is that of the \<open>calls\<close> column, the count counts the rows whose hcpid is not
  null.
\<close>

definition zip_aggregations :: "'n dtype \<Rightarrow> 'n call_plan_row list \<Rightarrow> 'n zip_aggregation list" where
  "zip_aggregations dt call_plan_df =
     map (\<lambda>z. \<lparr>za_ZCTA5CE20 = z,
               za_calls = group_sum dt (map cp_calls (filter (\<lambda>r. cp_zip r = z) call_plan_df)),
               za_hcp_count = of_nat (length (filter (\<lambda>r. cp_zip r = z \<and> cp_hcpid r \<noteq> None)
                                                call_plan_df))\<rparr>)
       (sort (remdups (map cp_zip call_plan_df)))"

definition district_territory_counts :: "hierarchy_row list \<Rightarrow> (label \<rightharpoonup> nat)" where
  "district_territory_counts hierarchy_df =
     map_of (groupby_nunique hr_district hr_territory hierarchy_df)"

definition region_territory_counts :: "hierarchy_row list \<Rightarrow> (label \<rightharpoonup> nat)" where
  "region_territory_counts hierarchy_df =
     map_of (groupby_nunique hr_region hr_territory hierarchy_df)"

text \<open>
  \<open>pd.merge(zip_aggregations, hierarchy_df, on='ZCTA5CE20', how='left')\<close>: every left row,
  once per matching hierarchy row, and once with null labels when there is none.
\<close>

definition left_row :: "'n zip_aggregation \<Rightarrow> hierarchy_row option \<Rightarrow> 'n merged_row" where
  "left_row a ho =
     \<lparr>mr_ZCTA5CE20 = za_ZCTA5CE20 a, mr_calls = za_calls a, mr_hcp_count = za_hcp_count a,
      mr_territory = (case ho of None \<Rightarrow> None | Some h \<Rightarrow> hr_territory h),
      mr_district = (case ho of None \<Rightarrow> None | Some h \<Rightarrow> hr_district h),
      mr_region = (case ho of None \<Rightarrow> None | Some h \<Rightarrow> hr_region h)\<rparr>"

definition merged_df :: "'n zip_aggregation list \<Rightarrow> hierarchy_row list \<Rightarrow> 'n merged_row list" where
  "merged_df zas hierarchy_df =
     concat (map (\<lambda>a.
       (case filter (\<lambda>h. hr_zip h = za_ZCTA5CE20 a) hierarchy_df of
          [] \<Rightarrow> [left_row a None]
        | hs \<Rightarrow> map (\<lambda>h. left_row a (Some h)) hs)) zas)"

text \<open>
  \<open>pd.merge(zip_geometries, merged_df, on='ZCTA5CE20', how='inner')\<close>: every geometry row,
  once per row of \<open>merged_df\<close> with its zip; then the \<open>fillna('Unassigned')\<close> on the three
  label columns, which puts a string into the column whatever the type of its other cells.
\<close>

definition inner_row :: "'p zip_geometry \<Rightarrow> 'n merged_row \<Rightarrow> ('n, 'p) zone_record" where
  "inner_row g m =
     \<lparr>ZCTA5CE20 = zg_ZCTA5CE20 g, geometry = zg_geometry g,
      calls = mr_calls m, hcp_count = mr_hcp_count m,
      territory = fillna (Str ''Unassigned'') (mr_territory m),
      district = fillna (Str ''Unassigned'') (mr_district m),
      region = fillna (Str ''Unassigned'') (mr_region m)\<rparr>"

definition master_gdf ::
  "'p zip_geometry list \<Rightarrow> 'n merged_row list \<Rightarrow> ('n, 'p) zone_record list" where
  "master_gdf zip_geometries merged =
     concat (map (\<lambda>g. map (inner_row g)
                         (filter (\<lambda>m. mr_ZCTA5CE20 m = zg_ZCTA5CE20 g) merged))
               zip_geometries)"

text \<open>
  The state the module keeps: \<open>master_gdf\<close>, \<open>district_terr_counts\<close>, \<open>region_terr_counts\<close>.
  A source that could not be read is \<open>None\<close>; the \<open>except\<close> clause then answers three
  \<open>None\<close>s.
\<close>

type_synonym ('n, 'p) app_state =
  "('n, 'p) zone_record list option \<times> (label \<rightharpoonup> nat) option \<times> (label \<rightharpoonup> nat) option"

definition load_and_process_data ::
  "'n dtype \<Rightarrow> 'p zip_geometry list option \<Rightarrow> 'n call_plan_row list option
     \<Rightarrow> hierarchy_row list option \<Rightarrow> ('n, 'p) app_state" where
  "load_and_process_data dt shapefile call_plan hierarchy =
     (case shapefile of None \<Rightarrow> (None, None, None)
      | Some zip_geometries \<Rightarrow>
     (case call_plan of None \<Rightarrow> (None, None, None)
      | Some call_plan_df \<Rightarrow>
     (case hierarchy of None \<Rightarrow> (None, None, None)
      | Some hierarchy_df \<Rightarrow>
         (Some (master_gdf zip_geometries
                  (merged_df (zip_aggregations dt call_plan_df) hierarchy_df)),
          Some (district_territory_counts hierarchy_df),
          Some (region_territory_counts hierarchy_df)))))"

section \<open>The routes\<close>

definition with_threshold :: "int \<Rightarrow> ('n, 'p) dissolved_row \<Rightarrow> ('n, 'p) aggregated_unit" where
  "with_threshold t d =
     \<lparr>name = d_name d, agg_calls = d_calls d, agg_hcp_count = d_hcp_count d,
      threshold = t, agg_geometry = d_geometry d\<rparr>"

text \<open>
  \<open>aggregated['name'].map(counts).fillna(0) * TERRITORY_WORKLOAD_THRESHOLD\<close>, per row.
\<close>

definition mapped_threshold :: "(label \<rightharpoonup> nat) \<Rightarrow> label \<Rightarrow> int" where
  "mapped_threshold counts n = int (fillna 0 (counts n)) * TERRITORY_WORKLOAD_THRESHOLD"

definition processing_error :: "string \<Rightarrow> error" where
  "processing_error level = Error500 (''Failed to process data for level '' @ level)"

text \<open>
  \<open>/data\<close>. The argument is the query parameter \<open>level\<close>, \<open>None\<close> when the request has none.
  Mapping a column through a count table that is \<open>None\<close> raises, as the union may; both
  end in the \<open>except\<close> clause.
\<close>

definition get_geospatial_data ::
  "'n dtype \<Rightarrow> ('p set list \<Rightarrow> bool) \<Rightarrow> ('n, 'p) app_state \<Rightarrow> string option
     \<Rightarrow> error + ('n, 'p) aggregated_unit list" where
  "get_geospatial_data dt raises st level_arg =
     (case st of (master, district_terr_counts, region_terr_counts) \<Rightarrow>
     (case master of None \<Rightarrow> Inl (Error500 ''Data could not be loaded.'')
      | Some gdf \<Rightarrow>
       (let level = lower (fillna ''Region'' level_arg);
            dissolve_col = (if level \<in> set [''territory'', ''district'', ''region'']
                            then level else ''ZCTA5CE20'')
        in case dissolve dt raises (column dissolve_col) gdf of
             None \<Rightarrow> Inl (processing_error level)
           | Some aggregated \<Rightarrow>
               if level = ''territory'' then
                 Inr (map (with_threshold TERRITORY_WORKLOAD_THRESHOLD) aggregated)
               else if level = ''district'' then
                 (case district_terr_counts of None \<Rightarrow> Inl (processing_error level)
                  | Some counts \<Rightarrow>
                      Inr (map (\<lambda>d. with_threshold (mapped_threshold counts (d_name d)) d)
                             aggregated))
               else if level = ''region'' then
                 (case region_terr_counts of None \<Rightarrow> Inl (processing_error level)
                  | Some counts \<Rightarrow>
                      Inr (map (\<lambda>d. with_threshold (mapped_threshold counts (d_name d)) d)
                             aggregated))
               else Inr (map (with_threshold 0) aggregated))))"

text \<open>
  \<open>/names\<close>: the dictionary as the list of its items, in the order they are written. The
  route has no \<open>try\<close>: the \<open>TypeError\<close> of a \<open>sorted\<close> is its answer.
\<close>

definition get_all_names ::
  "('n, 'p) zone_record list option \<Rightarrow> error + (string \<times> label list) list" where
  "get_all_names master =
     (case master of None \<Rightarrow> Inl (Error500 ''Data not loaded'')
      | Some gdf \<Rightarrow>
     (case py_sorted (remdups (map region gdf)) of Inl e \<Rightarrow> Inl e
      | Inr regions \<Rightarrow>
     (case py_sorted (remdups (map district gdf)) of Inl e \<Rightarrow> Inl e
      | Inr districts \<Rightarrow>
     (case py_sorted (remdups (map territory gdf)) of Inl e \<Rightarrow> Inl e
      | Inr territories \<Rightarrow>
     (case py_sorted (remdups (map zip_label gdf)) of Inl e \<Rightarrow> Inl e
      | Inr zips \<Rightarrow>
          Inr [(''region'', regions), (''district'', districts),
               (''territory'', territories), (''zip'', zips)])))))"

section \<open>The spec's notions\<close>

text \<open>
  The number of distinct territories under a district (or region) name in the raw
  hierarchy, in the spec's words: the territories \<open>t\<close> for which some row carries both the
  name and \<open>t\<close>.
\<close>

definition spec_distinct_territory_count ::
  "(hierarchy_row \<Rightarrow> label option) \<Rightarrow> hierarchy_row list \<Rightarrow> label \<Rightarrow> nat" where
  "spec_distinct_territory_count by hierarchy_df n =
     card {t. \<exists>r \<in> set hierarchy_df. by r = Some n \<and> hr_territory r = Some t}"


text \<open>
  The sum of a list of values of a numeric column: added up one after the other in the
  arithmetic of the column.
\<close>

definition total :: "'n dtype \<Rightarrow> 'n list \<Rightarrow> 'n" where
  "total dt vals = foldl (dt_add dt) (dt_zero dt) vals"

text \<open>The number that a finite double denotes.\<close>

fun f64_value :: "f64 \<Rightarrow> rat option" where
  "f64_value (Finite m e) =
     Some (if 0 \<le> e then of_int m * 2 ^ nat e else of_int m / 2 ^ nat (- e))"
| "f64_value PosInf = None"
| "f64_value NegInf = None"
| "f64_value NaN = None"

section \<open>A small data set\<close>

text \<open>
  Four zips with a geometry, four with calls, four with a hierarchy row: 10003 has no
  hierarchy row, 10004 no geometry, 10009 no calls, and 10005 is in the hierarchy only.
  The calls are whole numbers, so the column is int64; the labels are text.
\<close>

definition ex_shapefile :: "nat zip_geometry list" where
  "ex_shapefile =
     [\<lparr>zg_ZCTA5CE20 = ''10001'', zg_geometry = {1}\<rparr>,
      \<lparr>zg_ZCTA5CE20 = ''10002'', zg_geometry = {2}\<rparr>,
      \<lparr>zg_ZCTA5CE20 = ''10003'', zg_geometry = {3}\<rparr>,
      \<lparr>zg_ZCTA5CE20 = ''10009'', zg_geometry = {9}\<rparr>]"

definition ex_call_plan :: "64 word call_plan_row list" where
  "ex_call_plan =
     [\<lparr>cp_zip = ''10001'', cp_calls = 120, cp_hcpid = Some ''h1''\<rparr>,
      \<lparr>cp_zip = ''10002'', cp_calls = 10, cp_hcpid = Some ''h1''\<rparr>,
      \<lparr>cp_zip = ''10001'', cp_calls = 150, cp_hcpid = Some ''h2''\<rparr>,
      \<lparr>cp_zip = ''10003'', cp_calls = 5, cp_hcpid = Some ''h3''\<rparr>,
      \<lparr>cp_zip = ''10004'', cp_calls = 7, cp_hcpid = Some ''h4''\<rparr>]"

definition ex_hierarchy :: "hierarchy_row list" where
  "ex_hierarchy =
     [\<lparr>hr_zip = ''10001'', hr_territory = Some (Str ''T1''), hr_district = Some (Str ''D1''),
       hr_region = Some (Str ''R1'')\<rparr>,
      \<lparr>hr_zip = ''10002'', hr_territory = Some (Str ''T2''), hr_district = Some (Str ''D1''),
       hr_region = Some (Str ''R1'')\<rparr>,
      \<lparr>hr_zip = ''10005'', hr_territory = Some (Str ''T3''), hr_district = Some (Str ''D1''),
       hr_region = Some (Str ''R1'')\<rparr>,
      \<lparr>hr_zip = ''10004'', hr_territory = Some (Str ''T4''), hr_district = Some (Str ''D2''),
       hr_region = Some (Str ''R1'')\<rparr>]"

definition ex_master :: "(64 word, nat) zone_record list" where
  "ex_master =
     [\<lparr>ZCTA5CE20 = ''10001'', geometry = {1}, calls = 270, hcp_count = 2,
       territory = Str ''T1'', district = Str ''D1'', region = Str ''R1''\<rparr>,
      \<lparr>ZCTA5CE20 = ''10002'', geometry = {2}, calls = 10, hcp_count = 1,
       territory = Str ''T2'', district = Str ''D1'', region = Str ''R1''\<rparr>,
      \<lparr>ZCTA5CE20 = ''10003'', geometry = {3}, calls = 5, hcp_count = 1,
       territory = Str ''Unassigned'', district = Str ''Unassigned'',
       region = Str ''Unassigned''\<rparr>]"

text \<open>The answers of \<open>/data\<close> on this data set, level by level, and the answer of \<open>/names\<close>.\<close>

definition ex_territory_units :: "(64 word, nat) aggregated_unit list" where
  "ex_territory_units =
     [\<lparr>name = Str ''T1'', agg_calls = 270, agg_hcp_count = 2, threshold = 250,
       agg_geometry = {1}\<rparr>,
      \<lparr>name = Str ''T2'', agg_calls = 10, agg_hcp_count = 1, threshold = 250,
       agg_geometry = {2}\<rparr>,
      \<lparr>name = Str ''Unassigned'', agg_calls = 5, agg_hcp_count = 1, threshold = 250,
       agg_geometry = {3}\<rparr>]"

definition ex_district_units :: "(64 word, nat) aggregated_unit list" where
  "ex_district_units =
     [\<lparr>name = Str ''D1'', agg_calls = 280, agg_hcp_count = 3, threshold = 750,
       agg_geometry = {1, 2}\<rparr>,
      \<lparr>name = Str ''Unassigned'', agg_calls = 5, agg_hcp_count = 1, threshold = 0,
       agg_geometry = {3}\<rparr>]"

definition ex_region_units :: "(64 word, nat) aggregated_unit list" where
  "ex_region_units =
     [\<lparr>name = Str ''R1'', agg_calls = 280, agg_hcp_count = 3, threshold = 1000,
       agg_geometry = {1, 2}\<rparr>,
      \<lparr>name = Str ''Unassigned'', agg_calls = 5, agg_hcp_count = 1, threshold = 0,
       agg_geometry = {3}\<rparr>]"

definition ex_zone_units :: "(64 word, nat) aggregated_unit list" where
  "ex_zone_units =
     [\<lparr>name = Str ''10001'', agg_calls = 270, agg_hcp_count = 2, threshold = 0,
       agg_geometry = {1}\<rparr>,
      \<lparr>name = Str ''10002'', agg_calls = 10, agg_hcp_count = 1, threshold = 0,
       agg_geometry = {2}\<rparr>,
      \<lparr>name = Str ''10003'', agg_calls = 5, agg_hcp_count = 1, threshold = 0,
       agg_geometry = {3}\<rparr>]"

definition ex_names :: "(string \<times> label list) list" where
  "ex_names =
     [(''region'', [Str ''R1'', Str ''Unassigned'']),
      (''district'', [Str ''D1'', Str ''Unassigned'']),
      (''territory'', [Str ''T1'', Str ''T2'', Str ''Unassigned'']),
      (''zip'', [Str ''10001'', Str ''10002'', Str ''10003''])]"

text \<open>
  The same geometries with fractional calls, so that the column is float64: one call-plan
  row for each of 10001, 10002 and 10003, with the cells 0.1, 0.2 and 0.3, that is the
  doubles \<open>3602879701896397 / 2 ^ 55\<close>, \<open>3602879701896397 / 2 ^ 54\<close> and
  \<open>5404319552844595 / 2 ^ 54\<close>. The three zips are in one region.
\<close>

definition fx_call_plan :: "f64 call_plan_row list" where
  "fx_call_plan =
     [\<lparr>cp_zip = ''10001'', cp_calls = Finite 3602879701896397 (- 55), cp_hcpid = Some ''h1''\<rparr>,
      \<lparr>cp_zip = ''10002'', cp_calls = Finite 3602879701896397 (- 54), cp_hcpid = Some ''h2''\<rparr>,
      \<lparr>cp_zip = ''10003'', cp_calls = Finite 5404319552844595 (- 54), cp_hcpid = Some ''h3''\<rparr>]"

definition fx_hierarchy :: "hierarchy_row list" where
  "fx_hierarchy =
     [\<lparr>hr_zip = ''10001'', hr_territory = Some (Str ''T1''), hr_district = Some (Str ''D1''),
       hr_region = Some (Str ''R1'')\<rparr>,
      \<lparr>hr_zip = ''10002'', hr_territory = Some (Str ''T2''), hr_district = Some (Str ''D1''),
       hr_region = Some (Str ''R1'')\<rparr>,
      \<lparr>hr_zip = ''10003'', hr_territory = Some (Str ''T3''), hr_district = Some (Str ''D1''),
       hr_region = Some (Str ''R1'')\<rparr>]"

definition fx_master :: "(f64, nat) zone_record list" where
  "fx_master =
     [\<lparr>ZCTA5CE20 = ''10001'', geometry = {1}, calls = Finite 3602879701896397 (- 55),
       hcp_count = 1, territory = Str ''T1'', district = Str ''D1'', region = Str ''R1''\<rparr>,
      \<lparr>ZCTA5CE20 = ''10002'', geometry = {2}, calls = Finite 3602879701896397 (- 54),
       hcp_count = 1, territory = Str ''T2'', district = Str ''D1'', region = Str ''R1''\<rparr>,
      \<lparr>ZCTA5CE20 = ''10003'', geometry = {3}, calls = Finite 5404319552844595 (- 54),
       hcp_count = 1, territory = Str ''T3'', district = Str ''D1'', region = Str ''R1''\<rparr>]"

text \<open>Its region-level answer: one unit, with calls 0.6, the double \<open>5404319552844595 / 2 ^ 53\<close>.\<close>

definition fx_region_units :: "(f64, nat) aggregated_unit list" where
  "fx_region_units =
     [\<lparr>name = Str ''R1'', agg_calls = Finite 5404319552844595 (- 53), agg_hcp_count = 3,
       threshold = 750, agg_geometry = {1, 2, 3}\<rparr>]"

text \<open>
  The first data set with a hierarchy file whose territories are numbers: 101 for 10001
  and 102 for 10002. Zip 10003 still has no hierarchy row.
\<close>

definition nx_hierarchy :: "hierarchy_row list" where
  "nx_hierarchy =
     [\<lparr>hr_zip = ''10001'', hr_territory = Some (Num 101), hr_district = Some (Str ''D1''),
       hr_region = Some (Str ''R1'')\<rparr>,
      \<lparr>hr_zip = ''10002'', hr_territory = Some (Num 102), hr_district = Some (Str ''D1''),
       hr_region = Some (Str ''R1'')\<rparr>]"

definition nx_master :: "(64 word, nat) zone_record list" where
  "nx_master =
     [\<lparr>ZCTA5CE20 = ''10001'', geometry = {1}, calls = 270, hcp_count = 2,
       territory = Num 101, district = Str ''D1'', region = Str ''R1''\<rparr>,
      \<lparr>ZCTA5CE20 = ''10002'', geometry = {2}, calls = 10, hcp_count = 1,
       territory = Num 102, district = Str ''D1'', region = Str ''R1''\<rparr>,
      \<lparr>ZCTA5CE20 = ''10003'', geometry = {3}, calls = 5, hcp_count = 1,
       territory = Str ''Unassigned'', district = Str ''Unassigned'',
       region = Str ''Unassigned''\<rparr>]"

section \<open>Evaluating the numeric columns\<close>

lemma bit_length_numeral:
  "bit_length 0 = 0"
  "bit_length (Suc 0) = Suc 0"
  "bit_length (numeral n) = Suc (bit_length (numeral n div 2))"
  by (simp_all add: bit_length.simps)

lemma normalize_numeral:
  "normalize 0 e = (0, 0)"
  "normalize (numeral m) e =
     (if even (numeral m :: int) then normalize (numeral m div 2) (e + 1) else (numeral m, e))"
  "normalize (- numeral m) e =
     (if even (numeral m :: int) then normalize (- numeral m div 2) (e + 1) else (- numeral m, e))"
  "normalize 1 e = (1, e)"
  "normalize (- 1) e = (- 1, e)"
  by (simp_all add: normalize.simps)

lemmas round_f64_numeral =
  round_f64_def [of "numeral m" "numeral e"] round_f64_def [of "numeral m" "- numeral e"]
  round_f64_def [of "- numeral m" "numeral e"] round_f64_def [of "- numeral m" "- numeral e"]
  round_f64_def [of "numeral m" 0] round_f64_def [of "- numeral m" 0]
  round_f64_def [of 0 e] round_f64_def [of 1 "numeral e"] round_f64_def [of 1 "- numeral e"]
  round_f64_def [of 1 0] round_f64_def [of "- 1" "numeral e"]
  round_f64_def [of "- 1" "- numeral e"] round_f64_def [of "- 1" 0]
  for m e

lemmas f64_eval = round_f64_numeral bit_length_numeral normalize_numeral Let_def fsub_def
  group_sum_def group_sum_step_def float64_def

text \<open>In int64 the compensation stays zero and the sum of a group is the sum of its values.\<close>

lemma group_sum_int64_foldl:
  "foldl (group_sum_step int64) (s, 0) xs = (s + sum_list xs, 0)"
  by (induction xs arbitrary: s) (simp_all add: group_sum_step_def int64_def add.assoc)

lemma int64_zero [simp]: "dt_zero int64 = 0"
  by (simp add: int64_def)

lemma group_sum_int64: "group_sum int64 xs = sum_list xs"
  by (simp add: group_sum_def group_sum_int64_foldl)

section \<open>Resolving the level\<close>

lemma fillna_simps [simp]: "fillna d None = d" "fillna d (Some x) = x"
  by (simp_all add: fillna_def)

lemma column_territory: "column ''territory'' = territory"
  by (rule ext) (simp add: column_def)

lemma column_district: "column ''district'' = district"
  by (rule ext) (simp add: column_def)

lemma column_region: "column ''region'' = region"
  by (rule ext) (simp add: column_def)

lemma column_zip: "column ''ZCTA5CE20'' = zip_label"
  by (rule ext) (simp add: column_def)

lemma lower_Region: "lower ''Region'' = ''region''"
  by code_simp

lemma with_threshold_sel [simp]:
  "name (with_threshold t d) = d_name d"
  "agg_calls (with_threshold t d) = d_calls d"
  "agg_hcp_count (with_threshold t d) = d_hcp_count d"
  "threshold (with_threshold t d) = t"
  "agg_geometry (with_threshold t d) = d_geometry d"
  by (simp_all add: with_threshold_def)

text \<open>The answer depends on the parameter through its lower-case form only.\<close>

lemma data_level_cong:
  assumes "lower (fillna ''Region'' a) = lower (fillna ''Region'' b)"
  shows "get_geospatial_data dt raises st a = get_geospatial_data dt raises st b"
proof -
  obtain master dc rc where st: "st = (master, dc, rc)"
    by (cases st) auto
  show ?thesis
    unfolding st get_geospatial_data_def using assms
    by (cases master) (simp_all add: Let_def)
qed

lemma data_loaded:
  assumes "get_geospatial_data dt raises st a = Inr units"
  shows "\<exists>gdf dc rc. st = (Some gdf, dc, rc)"
  using assms by (cases st) (auto simp add: get_geospatial_data_def split: option.splits)

lemma data_territory:
  assumes "lower (fillna ''Region'' a) = ''territory''"
  shows "get_geospatial_data dt raises (Some gdf, dc, rc) a =
     (case dissolve dt raises territory gdf of
        None \<Rightarrow> Inl (processing_error ''territory'')
      | Some aggregated \<Rightarrow> Inr (map (with_threshold TERRITORY_WORKLOAD_THRESHOLD) aggregated))"
  using assms
  by (simp add: get_geospatial_data_def Let_def column_territory split: option.split)

lemma data_district:
  assumes "lower (fillna ''Region'' a) = ''district''"
  shows "get_geospatial_data dt raises (Some gdf, Some dc, rc) a =
     (case dissolve dt raises district gdf of
        None \<Rightarrow> Inl (processing_error ''district'')
      | Some aggregated \<Rightarrow>
          Inr (map (\<lambda>d. with_threshold (mapped_threshold dc (d_name d)) d) aggregated))"
  using assms
  by (simp add: get_geospatial_data_def Let_def column_district split: option.split)

lemma data_region:
  assumes "lower (fillna ''Region'' a) = ''region''"
  shows "get_geospatial_data dt raises (Some gdf, dc, Some rc) a =
     (case dissolve dt raises region gdf of
        None \<Rightarrow> Inl (processing_error ''region'')
      | Some aggregated \<Rightarrow>
          Inr (map (\<lambda>d. with_threshold (mapped_threshold rc (d_name d)) d) aggregated))"
  using assms
  by (simp add: get_geospatial_data_def Let_def column_region split: option.split)

lemma data_other:
  assumes "lower (fillna ''Region'' a) \<notin> {''territory'', ''district'', ''region''}"
  shows "get_geospatial_data dt raises (Some gdf, dc, rc) a =
     (case dissolve dt raises zip_label gdf of
        None \<Rightarrow> Inl (processing_error (lower (fillna ''Region'' a)))
      | Some aggregated \<Rightarrow> Inr (map (with_threshold 0) aggregated))"
  using assms
  by (simp add: get_geospatial_data_def Let_def column_zip split: option.split)

text \<open>The threshold of a unit of a successful answer, level by level.\<close>

lemma data_threshold:
  assumes "get_geospatial_data dt raises (Some gdf, Some dc, Some rc) a = Inr units"
    and "u \<in> set units"
  shows "threshold u =
     (if lower (fillna ''Region'' a) = ''territory'' then TERRITORY_WORKLOAD_THRESHOLD
      else if lower (fillna ''Region'' a) = ''district'' then mapped_threshold dc (name u)
      else if lower (fillna ''Region'' a) = ''region'' then mapped_threshold rc (name u)
      else 0)"
proof -
  let ?level = "lower (fillna ''Region'' a)"
  consider "?level = ''territory''" | "?level = ''district''" | "?level = ''region''"
    | "?level \<notin> {''territory'', ''district'', ''region''}" by auto
  then show ?thesis
  proof cases
    case 1
    from assms(1) obtain aggregated
      where "units = map (with_threshold TERRITORY_WORKLOAD_THRESHOLD) aggregated"
      unfolding data_territory [OF 1] by (auto split: option.splits)
    with assms(2) 1 show ?thesis by auto
  next
    case 2
    from assms(1) obtain aggregated
      where "units = map (\<lambda>d. with_threshold (mapped_threshold dc (d_name d)) d) aggregated"
      unfolding data_district [OF 2] by (auto split: option.splits)
    with assms(2) 2 show ?thesis by auto
  next
    case 3
    from assms(1) obtain aggregated
      where "units = map (\<lambda>d. with_threshold (mapped_threshold rc (d_name d)) d) aggregated"
      unfolding data_region [OF 3] by (auto split: option.splits)
    with assms(2) 3 show ?thesis by auto
  next
    case 4
    from assms(1) obtain aggregated
      where "units = map (with_threshold 0) aggregated"
      unfolding data_other [OF 4] by (auto split: option.splits)
    with assms(2) 4 show ?thesis by auto
  qed
qed

section \<open>Dissolving\<close>

lemma sum_list_indicator:
  fixes c :: "'a :: comm_monoid_add"
  assumes "distinct ks"
  shows "(\<Sum>k\<leftarrow>ks. if a = k then c else 0) = (if a \<in> set ks then c else 0)"
  using assms by (induction ks) auto

lemma sum_list_groups:
  fixes g :: "'r \<Rightarrow> 'a :: comm_monoid_add"
  assumes "distinct ks" and "f ` set xs \<subseteq> set ks"
  shows "(\<Sum>k\<leftarrow>ks. sum_list (map g (filter (\<lambda>r. f r = k) xs))) = sum_list (map g xs)"
  using assms(2)
proof (induction xs)
  case Nil
  then show ?case by simp
next
  case (Cons x xs)
  have split: "\<And>k. sum_list (map g (filter (\<lambda>r. f r = k) (x # xs))) =
      (if f x = k then g x else 0) + sum_list (map g (filter (\<lambda>r. f r = k) xs))"
    by simp
  have "(\<Sum>k\<leftarrow>ks. sum_list (map g (filter (\<lambda>r. f r = k) (x # xs)))) =
      (\<Sum>k\<leftarrow>ks. if f x = k then g x else 0) +
      (\<Sum>k\<leftarrow>ks. sum_list (map g (filter (\<lambda>r. f r = k) xs)))"
    unfolding split by (simp add: sum_list_addf)
  also have "(\<Sum>k\<leftarrow>ks. if f x = k then g x else 0) = g x"
    using Cons.prems assms(1) by (simp add: sum_list_indicator)
  also have "(\<Sum>k\<leftarrow>ks. sum_list (map g (filter (\<lambda>r. f r = k) xs))) = sum_list (map g xs)"
    using Cons by simp
  finally show ?case by simp
qed

lemma dissolve_Some:
  assumes "dissolve dt raises by rows = Some ds"
  shows "ds = map (\<lambda>kg. \<lparr>d_name = fst kg,
                          d_geometry = \<Union> (set (map geometry (snd kg))),
                          d_calls = group_sum dt (map calls (snd kg)),
                          d_hcp_count = group_sum int64 (map hcp_count (snd kg))\<rparr>)
                (dissolve_groups by rows)"
  using assms by (simp add: dissolve_def Let_def split: if_splits)


lemma dissolve_calls:
  assumes "dissolve int64 raises by rows = Some ds"
  shows "sum_list (map d_calls ds) = sum_list (map calls rows)"
proof -
  have "sum_list (map d_calls ds) =
      (\<Sum>k\<leftarrow>sort_key label_key (remdups (map by rows)).
         sum_list (map calls (filter (\<lambda>r. by r = k) rows)))"
    unfolding dissolve_Some [OF assms]
    by (simp add: dissolve_groups_def comp_def group_sum_int64)
  also have "\<dots> = sum_list (map calls rows)"
    by (rule sum_list_groups) auto
  finally show ?thesis .
qed

lemma dissolve_hcp_count:
  assumes "dissolve dt raises by rows = Some ds"
  shows "sum_list (map d_hcp_count ds) = sum_list (map hcp_count rows)"
proof -
  have "sum_list (map d_hcp_count ds) =
      (\<Sum>k\<leftarrow>sort_key label_key (remdups (map by rows)).
         sum_list (map hcp_count (filter (\<lambda>r. by r = k) rows)))"
    unfolding dissolve_Some [OF assms]
    by (simp add: dissolve_groups_def comp_def group_sum_int64)
  also have "\<dots> = sum_list (map hcp_count rows)"
    by (rule sum_list_groups) auto
  finally show ?thesis .
qed

text \<open>Whatever the level, a successful answer is a dissolved frame with a threshold column.\<close>

lemma data_Inr:
  assumes "get_geospatial_data dt raises (Some gdf, dc, rc) level_arg = Inr units"
  shows "\<exists>by aggregated. dissolve dt raises by gdf = Some aggregated \<and>
           map name units = map d_name aggregated \<and>
           map agg_calls units = map d_calls aggregated \<and>
           map agg_hcp_count units = map d_hcp_count aggregated \<and>
           map agg_geometry units = map d_geometry aggregated"
proof -
  let ?level = "lower (fillna ''Region'' level_arg)"
  let ?col = "if ?level \<in> set [''territory'', ''district'', ''region'']
              then ?level else ''ZCTA5CE20''"
  obtain aggregated where d: "dissolve dt raises (column ?col) gdf = Some aggregated"
    using assms by (auto simp add: get_geospatial_data_def Let_def split: option.splits)
  have "map name units = map d_name aggregated \<and>
           map agg_calls units = map d_calls aggregated \<and>
           map agg_hcp_count units = map d_hcp_count aggregated \<and>
           map agg_geometry units = map d_geometry aggregated"
  proof -
    consider "?level = ''territory''" | "?level = ''district''" | "?level = ''region''"
      | "?level \<notin> {''territory'', ''district'', ''region''}" by auto
    then show ?thesis
    proof cases
      case 1
      with assms d have "units = map (\<lambda>d. with_threshold TERRITORY_WORKLOAD_THRESHOLD d) aggregated"
        by (simp add: get_geospatial_data_def Let_def)
      then show ?thesis by (simp add: comp_def)
    next
      case 2
      with assms d obtain counts where
        "units = map (\<lambda>d. with_threshold (mapped_threshold counts (d_name d)) d) aggregated"
        by (auto simp add: get_geospatial_data_def Let_def split: option.splits)
      then show ?thesis by (simp add: comp_def)
    next
      case 3
      with assms d obtain counts where
        "units = map (\<lambda>d. with_threshold (mapped_threshold counts (d_name d)) d) aggregated"
        by (auto simp add: get_geospatial_data_def Let_def split: option.splits)
      then show ?thesis by (simp add: comp_def)
    next
      case 4
      with assms d have "units = map (\<lambda>d. with_threshold 0 d) aggregated"
        by (simp add: get_geospatial_data_def Let_def)
      then show ?thesis by (simp add: comp_def)
    qed
  qed
  with d show ?thesis by blast
qed

section \<open>The count tables\<close>

lemma set_map_filter_Some:
  "set (List.map_filter f xs) = {y. \<exists>x \<in> set xs. f x = Some y}"
  by (induction xs) (auto simp add: List.map_filter_simps split: option.splits)

text \<open>
  The table that \<open>groupby(by)['territory'].nunique().to_dict()\<close> builds has a key for every
  non-null name of the column, and holds the spec's count under it.
\<close>

lemma groupby_nunique_lookup:
  "map_of (groupby_nunique by hr_territory rows) n =
     (if \<exists>r \<in> set rows. by r = Some n
      then Some (spec_distinct_territory_count by rows n) else None)"
proof -
  have keys: "set (group_keys by rows) = {k. \<exists>r \<in> set rows. by r = Some k}"
    by (simp add: group_keys_def set_map_filter_Some)
  have cnt: "length (remdups (List.map_filter hr_territory (filter (\<lambda>r. by r = Some n) rows))) =
      spec_distinct_territory_count by rows n"
  proof -
    have "set (List.map_filter hr_territory (filter (\<lambda>r. by r = Some n) rows)) =
        {t. \<exists>r \<in> set rows. by r = Some n \<and> hr_territory r = Some t}"
      by (auto simp add: set_map_filter_Some)
    then show ?thesis
      by (simp add: spec_distinct_territory_count_def length_remdups_card_conv)
  qed
  have "map_of (groupby_nunique by hr_territory rows) n =
      (if n \<in> set (group_keys by rows)
       then Some (length (remdups (List.map_filter hr_territory
                    (filter (\<lambda>r. by r = Some n) rows)))) else None)"
    unfolding groupby_nunique_def by (simp add: map_of_map_restrict restrict_map_def)
  then show ?thesis by (simp add: keys cnt)
qed

lemma count_absent:
  assumes "\<not> (\<exists>r \<in> set rows. by r = Some n)"
  shows "spec_distinct_territory_count by rows n = 0"
proof -
  have "{t. \<exists>r \<in> set rows. by r = Some n \<and> hr_territory r = Some t} = {}"
    using assms by auto
  then show ?thesis by (simp add: spec_distinct_territory_count_def)
qed

lemma mapped_threshold_count:
  "mapped_threshold (map_of (groupby_nunique by hr_territory rows)) n =
     TERRITORY_WORKLOAD_THRESHOLD * int (spec_distinct_territory_count by rows n)"
  by (simp add: mapped_threshold_def groupby_nunique_lookup count_absent)

lemma load_Some:
  "load_and_process_data dt (Some zg) (Some cp) (Some h) =
     (Some (master_gdf zg (merged_df (zip_aggregations dt cp) h)),
      Some (district_territory_counts h), Some (region_territory_counts h))"
  by (simp add: load_and_process_data_def)

section \<open>The joins\<close>

lemma zip_aggregations_ids:
  "set (map za_ZCTA5CE20 (zip_aggregations dt cp)) = set (map cp_zip cp)"
  by (simp add: zip_aggregations_def comp_def)

lemma left_row_sel [simp]:
  "mr_ZCTA5CE20 (left_row a ho) = za_ZCTA5CE20 a"
  "mr_territory (left_row a None) = None"
  "mr_district (left_row a None) = None"
  "mr_region (left_row a None) = None"
  "mr_territory (left_row a (Some hr)) = hr_territory hr"
  "mr_district (left_row a (Some hr)) = hr_district hr"
  "mr_region (left_row a (Some hr)) = hr_region hr"
  by (simp_all add: left_row_def)

lemma inner_row_sel [simp]:
  "ZCTA5CE20 (inner_row g m) = zg_ZCTA5CE20 g"
  "geometry (inner_row g m) = zg_geometry g"
  "calls (inner_row g m) = mr_calls m"
  "hcp_count (inner_row g m) = mr_hcp_count m"
  "territory (inner_row g m) = fillna (Str ''Unassigned'') (mr_territory m)"
  "district (inner_row g m) = fillna (Str ''Unassigned'') (mr_district m)"
  "region (inner_row g m) = fillna (Str ''Unassigned'') (mr_region m)"
  by (simp_all add: inner_row_def)

text \<open>The rows that one aggregation row contributes to the left join.\<close>

lemma left_rows_cases:
  "(case filter (\<lambda>hr. hr_zip hr = z) h of
      [] \<Rightarrow> [left_row a None] | hs \<Rightarrow> map (\<lambda>hr. left_row a (Some hr)) hs) =
   (if z \<in> set (map hr_zip h)
    then map (\<lambda>hr. left_row a (Some hr)) (filter (\<lambda>hr. hr_zip hr = z) h)
    else [left_row a None])"
proof (cases "filter (\<lambda>hr. hr_zip hr = z) h")
  case Nil
  then have "z \<notin> set (map hr_zip h)"
    by (auto simp add: filter_empty_conv)
  with Nil show ?thesis by simp
next
  case (Cons x xs)
  then have "x \<in> set (filter (\<lambda>hr. hr_zip hr = z) h)" by simp
  then have "z \<in> set (map hr_zip h)" by auto
  with Cons show ?thesis by simp
qed

lemma set_merged_df:
  "set (merged_df zas h) =
     (\<Union>a \<in> set zas.
        if za_ZCTA5CE20 a \<in> set (map hr_zip h)
        then (\<lambda>hr. left_row a (Some hr)) ` {hr \<in> set h. hr_zip hr = za_ZCTA5CE20 a}
        else {left_row a None})"
  by (simp add: merged_df_def left_rows_cases if_distrib [of set] cong: if_cong)

text \<open>A row of the left join comes from one aggregation row and at most one hierarchy row.\<close>

lemma merged_df_mem:
  assumes "m \<in> set (merged_df zas h)"
  shows "mr_ZCTA5CE20 m \<in> set (map za_ZCTA5CE20 zas) \<and>
         ((mr_territory m = None \<and> mr_district m = None \<and> mr_region m = None \<and>
           mr_ZCTA5CE20 m \<notin> set (map hr_zip h)) \<or>
          (\<exists>hr \<in> set h. hr_zip hr = mr_ZCTA5CE20 m \<and> mr_territory m = hr_territory hr \<and>
             mr_district m = hr_district hr \<and> mr_region m = hr_region hr))"
proof -
  from assms obtain a where a: "a \<in> set zas"
    and m: "m \<in> (if za_ZCTA5CE20 a \<in> set (map hr_zip h)
        then (\<lambda>hr. left_row a (Some hr)) ` {hr \<in> set h. hr_zip hr = za_ZCTA5CE20 a}
        else {left_row a None})"
    unfolding set_merged_df by (rule UN_E)
  show ?thesis
  proof (cases "za_ZCTA5CE20 a \<in> set (map hr_zip h)")
    case True
    with m obtain hr where "hr \<in> set h" "hr_zip hr = za_ZCTA5CE20 a" "m = left_row a (Some hr)"
      by auto
    with a show ?thesis by auto
  next
    case False
    with m have "m = left_row a None" by simp
    with a False show ?thesis by auto
  qed
qed

lemma merged_df_ids:
  "set (map mr_ZCTA5CE20 (merged_df zas h)) = set (map za_ZCTA5CE20 zas)"
proof
  show "set (map mr_ZCTA5CE20 (merged_df zas h)) \<subseteq> set (map za_ZCTA5CE20 zas)"
    using merged_df_mem by fastforce
next
  show "set (map za_ZCTA5CE20 zas) \<subseteq> set (map mr_ZCTA5CE20 (merged_df zas h))"
  proof
    fix z assume "z \<in> set (map za_ZCTA5CE20 zas)"
    then obtain a where a: "a \<in> set zas" and z: "z = za_ZCTA5CE20 a" by auto
    have "\<exists>m \<in> set (merged_df zas h). mr_ZCTA5CE20 m = z"
    proof (cases "za_ZCTA5CE20 a \<in> set (map hr_zip h)")
      case True
      then obtain hr where hr: "hr \<in> set h" "hr_zip hr = za_ZCTA5CE20 a" by auto
      have "left_row a (Some hr) \<in> set (merged_df zas h)"
        unfolding set_merged_df using a True hr by (intro UN_I [of a]) simp_all
      then show ?thesis using z by (intro bexI [of _ "left_row a (Some hr)"]) simp_all
    next
      case False
      have "left_row a None \<in> set (merged_df zas h)"
        unfolding set_merged_df using a False by (intro UN_I [of a]) simp_all
      then show ?thesis using z by (intro bexI [of _ "left_row a None"]) simp_all
    qed
    then show "z \<in> set (map mr_ZCTA5CE20 (merged_df zas h))" by auto
  qed
qed

text \<open>A row of the inner join comes from one geometry row and one row of the left join.\<close>

lemma set_master_gdf:
  "set (master_gdf zg ms) =
     (\<Union>g \<in> set zg. inner_row g ` {m \<in> set ms. mr_ZCTA5CE20 m = zg_ZCTA5CE20 g})"
  by (simp add: master_gdf_def)

lemma master_gdf_memD:
  assumes "r \<in> set (master_gdf zg ms)"
  shows "\<exists>g m. g \<in> set zg \<and> m \<in> set ms \<and> mr_ZCTA5CE20 m = zg_ZCTA5CE20 g \<and>
           r = inner_row g m"
  using assms unfolding set_master_gdf by blast

lemma master_gdf_memI:
  assumes "g \<in> set zg" and "m \<in> set ms" and "mr_ZCTA5CE20 m = zg_ZCTA5CE20 g"
  shows "inner_row g m \<in> set (master_gdf zg ms)"
  using assms unfolding set_master_gdf by blast

lemma master_gdf_ids:
  "set (map ZCTA5CE20 (master_gdf zg ms)) =
     set (map zg_ZCTA5CE20 zg) \<inter> set (map mr_ZCTA5CE20 ms)"
proof
  show "set (map ZCTA5CE20 (master_gdf zg ms)) \<subseteq>
      set (map zg_ZCTA5CE20 zg) \<inter> set (map mr_ZCTA5CE20 ms)"
  proof
    fix z assume "z \<in> set (map ZCTA5CE20 (master_gdf zg ms))"
    then obtain r where "r \<in> set (master_gdf zg ms)" and z: "z = ZCTA5CE20 r" by auto
    from master_gdf_memD [OF this(1)] obtain g m where "g \<in> set zg" "m \<in> set ms"
      "mr_ZCTA5CE20 m = zg_ZCTA5CE20 g" "r = inner_row g m" by blast
    then show "z \<in> set (map zg_ZCTA5CE20 zg) \<inter> set (map mr_ZCTA5CE20 ms)"
      unfolding z by (simp add: image_iff) metis
  qed
next
  show "set (map zg_ZCTA5CE20 zg) \<inter> set (map mr_ZCTA5CE20 ms) \<subseteq>
      set (map ZCTA5CE20 (master_gdf zg ms))"
  proof
    fix z assume "z \<in> set (map zg_ZCTA5CE20 zg) \<inter> set (map mr_ZCTA5CE20 ms)"
    then obtain g m where g: "g \<in> set zg" and m: "m \<in> set ms"
      and z: "z = zg_ZCTA5CE20 g" "mr_ZCTA5CE20 m = zg_ZCTA5CE20 g"
      by auto
    from master_gdf_memI [OF g m z(2)] have "inner_row g m \<in> set (master_gdf zg ms)" .
    moreover have "ZCTA5CE20 (inner_row g m) = z" by (simp add: z)
    ultimately show "z \<in> set (map ZCTA5CE20 (master_gdf zg ms))"
      unfolding set_map by (rule rev_image_eqI [OF _ sym])
  qed
qed

lemma master_ids:
  "set (map ZCTA5CE20 (master_gdf zg (merged_df (zip_aggregations dt cp) h))) =
     set (map zg_ZCTA5CE20 zg) \<inter> set (map cp_zip cp)"
  by (simp only: master_gdf_ids merged_df_ids zip_aggregations_ids)

text \<open>
  The labels of a row of the master frame: read from a hierarchy row of the same zip, or
  all three filled in when the hierarchy has no row for the zip.
\<close>

lemma master_labels:
  assumes "r \<in> set (master_gdf zg (merged_df zas h))"
  shows "(territory r = Str ''Unassigned'' \<and> district r = Str ''Unassigned'' \<and>
          region r = Str ''Unassigned'' \<and> ZCTA5CE20 r \<notin> set (map hr_zip h)) \<or>
         (\<exists>hr \<in> set h. hr_zip hr = ZCTA5CE20 r \<and>
            territory r = fillna (Str ''Unassigned'') (hr_territory hr) \<and>
            district r = fillna (Str ''Unassigned'') (hr_district hr) \<and>
            region r = fillna (Str ''Unassigned'') (hr_region hr))"
proof -
  from master_gdf_memD [OF assms] obtain g m where m: "m \<in> set (merged_df zas h)"
    and k: "mr_ZCTA5CE20 m = zg_ZCTA5CE20 g" and r: "r = inner_row g m"
    by blast
  from merged_df_mem [OF m] show ?thesis
    unfolding r by (auto simp add: k)
qed

section \<open>The data set, evaluated\<close>

lemma ex_zip_aggregations:
  "zip_aggregations int64 ex_call_plan =
     [\<lparr>za_ZCTA5CE20 = ''10001'', za_calls = 270, za_hcp_count = 2\<rparr>,
      \<lparr>za_ZCTA5CE20 = ''10002'', za_calls = 10, za_hcp_count = 1\<rparr>,
      \<lparr>za_ZCTA5CE20 = ''10003'', za_calls = 5, za_hcp_count = 1\<rparr>,
      \<lparr>za_ZCTA5CE20 = ''10004'', za_calls = 7, za_hcp_count = 1\<rparr>]"
  by (simp add: zip_aggregations_def ex_call_plan_def group_sum_int64)

lemma ex_master_gdf:
  "master_gdf ex_shapefile (merged_df (zip_aggregations int64 ex_call_plan) ex_hierarchy) = ex_master"
  by (simp add: ex_zip_aggregations merged_df_def left_row_def master_gdf_def inner_row_def
      ex_shapefile_def ex_hierarchy_def ex_master_def)

lemma ex_load:
  "load_and_process_data int64 (Some ex_shapefile) (Some ex_call_plan) (Some ex_hierarchy) =
     (Some ex_master, Some (district_territory_counts ex_hierarchy),
      Some (region_territory_counts ex_hierarchy))"
  by (simp add: load_and_process_data_def ex_master_gdf)

lemma ex_dissolve_territory:
  "dissolve int64 never_raises territory ex_master =
     Some [\<lparr>d_name = Str ''T1'', d_geometry = {1}, d_calls = 270, d_hcp_count = 2\<rparr>,
           \<lparr>d_name = Str ''T2'', d_geometry = {2}, d_calls = 10, d_hcp_count = 1\<rparr>,
           \<lparr>d_name = Str ''Unassigned'', d_geometry = {3}, d_calls = 5, d_hcp_count = 1\<rparr>]"
  by (simp add: dissolve_def dissolve_groups_def never_raises_def ex_master_def group_sum_int64
      zip_label_def)

lemma ex_dissolve_district:
  "dissolve int64 never_raises district ex_master =
     Some [\<lparr>d_name = Str ''D1'', d_geometry = {1, 2}, d_calls = 280, d_hcp_count = 3\<rparr>,
           \<lparr>d_name = Str ''Unassigned'', d_geometry = {3}, d_calls = 5, d_hcp_count = 1\<rparr>]"
  by (simp add: dissolve_def dissolve_groups_def never_raises_def ex_master_def group_sum_int64
      insert_commute)

lemma ex_dissolve_region:
  "dissolve int64 never_raises region ex_master =
     Some [\<lparr>d_name = Str ''R1'', d_geometry = {1, 2}, d_calls = 280, d_hcp_count = 3\<rparr>,
           \<lparr>d_name = Str ''Unassigned'', d_geometry = {3}, d_calls = 5, d_hcp_count = 1\<rparr>]"
  by (simp add: dissolve_def dissolve_groups_def never_raises_def ex_master_def group_sum_int64
      insert_commute)

lemma ex_dissolve_zip:
  "dissolve int64 never_raises zip_label ex_master =
     Some [\<lparr>d_name = Str ''10001'', d_geometry = {1}, d_calls = 270, d_hcp_count = 2\<rparr>,
           \<lparr>d_name = Str ''10002'', d_geometry = {2}, d_calls = 10, d_hcp_count = 1\<rparr>,
           \<lparr>d_name = Str ''10003'', d_geometry = {3}, d_calls = 5, d_hcp_count = 1\<rparr>]"
  by (simp add: dissolve_def dissolve_groups_def never_raises_def ex_master_def group_sum_int64
      zip_label_def)

lemma ex_dcounts_D1: "district_territory_counts ex_hierarchy (Str ''D1'') = Some 3"
  by (simp add: district_territory_counts_def groupby_nunique_def group_keys_def
      ex_hierarchy_def List.map_filter_simps)

lemma ex_dcounts_Un: "district_territory_counts ex_hierarchy (Str ''Unassigned'') = None"
  by (simp add: district_territory_counts_def groupby_nunique_def group_keys_def
      ex_hierarchy_def List.map_filter_simps)

lemma ex_rcounts_R1: "region_territory_counts ex_hierarchy (Str ''R1'') = Some 4"
  by (simp add: region_territory_counts_def groupby_nunique_def group_keys_def
      ex_hierarchy_def List.map_filter_simps)

lemma ex_rcounts_Un: "region_territory_counts ex_hierarchy (Str ''Unassigned'') = None"
  by (simp add: region_territory_counts_def groupby_nunique_def group_keys_def
      ex_hierarchy_def List.map_filter_simps)

lemma ex_data_territory:
  "get_geospatial_data int64 never_raises
     (load_and_process_data int64 (Some ex_shapefile) (Some ex_call_plan) (Some ex_hierarchy))
     (Some ''territory'') = Inr ex_territory_units"
proof -
  have l: "lower (fillna ''Region'' (Some ''territory'')) = ''territory''" by code_simp
  show ?thesis
    by (simp add: ex_load data_territory [OF l] ex_dissolve_territory with_threshold_def
        ex_territory_units_def TERRITORY_WORKLOAD_THRESHOLD_def)
qed

lemma ex_data_district:
  "get_geospatial_data int64 never_raises
     (load_and_process_data int64 (Some ex_shapefile) (Some ex_call_plan) (Some ex_hierarchy))
     (Some ''District'') = Inr ex_district_units"
proof -
  have l: "lower (fillna ''Region'' (Some ''District'')) = ''district''" by code_simp
  show ?thesis
    by (simp add: ex_load data_district [OF l] ex_dissolve_district mapped_threshold_def
        ex_dcounts_D1 ex_dcounts_Un with_threshold_def ex_district_units_def
        TERRITORY_WORKLOAD_THRESHOLD_def)
qed

lemma ex_data_region:
  "get_geospatial_data int64 never_raises
     (load_and_process_data int64 (Some ex_shapefile) (Some ex_call_plan) (Some ex_hierarchy))
     None = Inr ex_region_units"
proof -
  have l: "lower (fillna ''Region'' None) = ''region''" by code_simp
  show ?thesis
    by (simp add: ex_load data_region [OF l] ex_dissolve_region mapped_threshold_def
        ex_rcounts_R1 ex_rcounts_Un with_threshold_def ex_region_units_def
        TERRITORY_WORKLOAD_THRESHOLD_def)
qed

lemma ex_data_zone:
  assumes "lower s \<notin> {''territory'', ''district'', ''region''}"
  shows "get_geospatial_data int64 never_raises
     (load_and_process_data int64 (Some ex_shapefile) (Some ex_call_plan) (Some ex_hierarchy))
     (Some s) = Inr ex_zone_units"
proof -
  from assms
  have l: "lower (fillna ''Region'' (Some s)) \<notin> {''territory'', ''district'', ''region''}"
    by simp
  show ?thesis
    by (simp add: ex_load data_other [OF l] ex_dissolve_zip with_threshold_def
        ex_zone_units_def)
qed

lemma lower_county: "lower ''County'' = ''county''"
  by code_simp

lemma lower_zone: "lower ''zone'' = ''zone''"
  by code_simp

lemma ex_get_all_names:
  "get_all_names (fst (load_and_process_data int64 (Some ex_shapefile) (Some ex_call_plan)
     (Some ex_hierarchy))) = Inr ex_names"
  by (simp add: ex_load get_all_names_def py_sorted_def zip_label_def ex_master_def ex_names_def)

text \<open>The float64 data set.\<close>

lemma fx_zip_aggregations:
  "zip_aggregations float64 fx_call_plan =
     [\<lparr>za_ZCTA5CE20 = ''10001'', za_calls = Finite 3602879701896397 (- 55), za_hcp_count = 1\<rparr>,
      \<lparr>za_ZCTA5CE20 = ''10002'', za_calls = Finite 3602879701896397 (- 54), za_hcp_count = 1\<rparr>,
      \<lparr>za_ZCTA5CE20 = ''10003'', za_calls = Finite 5404319552844595 (- 54), za_hcp_count = 1\<rparr>]"
  by (simp add: zip_aggregations_def fx_call_plan_def f64_eval)

lemma fx_master_gdf:
  "master_gdf ex_shapefile (merged_df (zip_aggregations float64 fx_call_plan) fx_hierarchy) =
     fx_master"
  by (simp add: fx_zip_aggregations merged_df_def left_row_def master_gdf_def inner_row_def
      ex_shapefile_def fx_hierarchy_def fx_master_def)

lemma fx_load:
  "load_and_process_data float64 (Some ex_shapefile) (Some fx_call_plan) (Some fx_hierarchy) =
     (Some fx_master, Some (district_territory_counts fx_hierarchy),
      Some (region_territory_counts fx_hierarchy))"
  by (simp add: load_and_process_data_def fx_master_gdf)

lemma fx_group_sum:
  "group_sum float64 [Finite 3602879701896397 (- 55), Finite 3602879701896397 (- 54),
     Finite 5404319552844595 (- 54)] = Finite 5404319552844595 (- 53)"
  by (simp add: f64_eval)

lemma fx_dissolve_region:
  "dissolve float64 never_raises region fx_master =
     Some [\<lparr>d_name = Str ''R1'', d_geometry = {1, 2, 3},
            d_calls = Finite 5404319552844595 (- 53), d_hcp_count = 3\<rparr>]"
  by (simp add: dissolve_def dissolve_groups_def never_raises_def fx_master_def fx_group_sum
      group_sum_int64 insert_commute)

lemma fx_rcounts_R1: "region_territory_counts fx_hierarchy (Str ''R1'') = Some 3"
  by (simp add: region_territory_counts_def groupby_nunique_def group_keys_def
      fx_hierarchy_def List.map_filter_simps)

lemma fx_data_region:
  "get_geospatial_data float64 never_raises
     (load_and_process_data float64 (Some ex_shapefile) (Some fx_call_plan) (Some fx_hierarchy))
     None = Inr fx_region_units"
proof -
  have l: "lower (fillna ''Region'' None) = ''region''" by code_simp
  show ?thesis
    by (simp add: fx_load data_region [OF l] fx_dissolve_region mapped_threshold_def
        fx_rcounts_R1 with_threshold_def fx_region_units_def TERRITORY_WORKLOAD_THRESHOLD_def)
qed

lemma fx_total_master:
  "total float64 (map calls fx_master) = Finite 1351079888211149 (- 51)"
  by (simp add: total_def fx_master_def f64_eval)

lemma fx_total_units:
  "total float64 (map agg_calls fx_region_units) = Finite 5404319552844595 (- 53)"
  by (simp add: total_def fx_region_units_def f64_eval)

text \<open>The data set with numeric territories.\<close>

lemma nx_master_gdf:
  "master_gdf ex_shapefile (merged_df (zip_aggregations int64 ex_call_plan) nx_hierarchy) =
     nx_master"
  by (simp add: ex_zip_aggregations merged_df_def left_row_def master_gdf_def inner_row_def
      ex_shapefile_def nx_hierarchy_def nx_master_def)

lemma nx_load:
  "load_and_process_data int64 (Some ex_shapefile) (Some ex_call_plan) (Some nx_hierarchy) =
     (Some nx_master, Some (district_territory_counts nx_hierarchy),
      Some (region_territory_counts nx_hierarchy))"
  by (simp add: load_and_process_data_def nx_master_gdf)

section \<open>Thresholds\<close>

text \<open>
  Claim C1, as the spec states it: at every level the threshold of a group named
  "Unassigned" is 0. At territory level the source gives every group the constant, the
  group of the unmapped zips included: on the data set above, zip 10003 has no hierarchy
  row, and the territory-level unit "Unassigned" carries 250.
\<close>

theorem unassigned_territory_threshold_counterexample:
  "get_geospatial_data int64 never_raises
     (load_and_process_data int64 (Some ex_shapefile) (Some ex_call_plan) (Some ex_hierarchy))
     (Some ''territory'') = Inr ex_territory_units \<and>
   name (ex_territory_units ! 2) = Str ''Unassigned'' \<and>
   threshold (ex_territory_units ! 2) = 250 \<and>
   threshold (ex_territory_units ! 2) \<noteq> 0"
  by (simp add: ex_data_territory) (simp add: ex_territory_units_def)

text \<open>
  Claim C1, amended. The threshold of a unit named "Unassigned" is the constant at
  territory level; at district (region) level it is the constant times the number of
  distinct territories that the raw hierarchy lists under the literal district (region)
  name "Unassigned"; at zip level and for every other level value it is 0. So away from
  territory level it is 0 as soon as no hierarchy row carries "Unassigned" as its district
  or region.
\<close>

theorem unassigned_threshold:
  assumes "get_geospatial_data dt raises
             (load_and_process_data dt (Some zg) (Some cp) (Some h)) a = Inr units"
    and "u \<in> set units"
    and "name u = Str ''Unassigned''"
  shows "threshold u =
           (if lower (fillna ''Region'' a) = ''territory'' then TERRITORY_WORKLOAD_THRESHOLD
            else if lower (fillna ''Region'' a) = ''district''
              then TERRITORY_WORKLOAD_THRESHOLD *
                   int (spec_distinct_territory_count hr_district h (Str ''Unassigned''))
            else if lower (fillna ''Region'' a) = ''region''
              then TERRITORY_WORKLOAD_THRESHOLD *
                   int (spec_distinct_territory_count hr_region h (Str ''Unassigned''))
            else 0) \<and>
         (lower (fillna ''Region'' a) \<noteq> ''territory'' \<longrightarrow>
          (\<forall>r \<in> set h. hr_district r \<noteq> Some (Str ''Unassigned'') \<and>
                        hr_region r \<noteq> Some (Str ''Unassigned'')) \<longrightarrow>
          threshold u = 0)"
proof -
  let ?level = "lower (fillna ''Region'' a)"
  have t: "threshold u =
      (if ?level = ''territory'' then TERRITORY_WORKLOAD_THRESHOLD
       else if ?level = ''district''
         then mapped_threshold (district_territory_counts h) (name u)
       else if ?level = ''region''
         then mapped_threshold (region_territory_counts h) (name u)
       else 0)"
    using assms(1) unfolding load_Some by (rule data_threshold) (rule assms(2))
  have d: "mapped_threshold (district_territory_counts h) (Str ''Unassigned'') =
      TERRITORY_WORKLOAD_THRESHOLD *
      int (spec_distinct_territory_count hr_district h (Str ''Unassigned''))"
    unfolding district_territory_counts_def by (rule mapped_threshold_count)
  have r: "mapped_threshold (region_territory_counts h) (Str ''Unassigned'') =
      TERRITORY_WORKLOAD_THRESHOLD *
      int (spec_distinct_territory_count hr_region h (Str ''Unassigned''))"
    unfolding region_territory_counts_def by (rule mapped_threshold_count)
  have first: "threshold u =
           (if ?level = ''territory'' then TERRITORY_WORKLOAD_THRESHOLD
            else if ?level = ''district''
              then TERRITORY_WORKLOAD_THRESHOLD *
                   int (spec_distinct_territory_count hr_district h (Str ''Unassigned''))
            else if ?level = ''region''
              then TERRITORY_WORKLOAD_THRESHOLD *
                   int (spec_distinct_territory_count hr_region h (Str ''Unassigned''))
            else 0)"
    using t d r by (simp add: assms(3))
  have second: "threshold u = 0"
    if "?level \<noteq> ''territory''"
      and "\<forall>r \<in> set h. hr_district r \<noteq> Some (Str ''Unassigned'') \<and>
                        hr_region r \<noteq> Some (Str ''Unassigned'')"
  proof -
    from that(2) have "spec_distinct_territory_count hr_district h (Str ''Unassigned'') = 0"
      and "spec_distinct_territory_count hr_region h (Str ''Unassigned'') = 0"
      by (auto intro: count_absent)
    with first that(1) show ?thesis by simp
  qed
  from first second show ?thesis by blast
qed

theorem unassigned_threshold_witness:
  "get_geospatial_data int64 never_raises
     (load_and_process_data int64 (Some ex_shapefile) (Some ex_call_plan) (Some ex_hierarchy))
     (Some ''District'') = Inr ex_district_units \<and>
   ex_district_units ! 1 \<in> set ex_district_units \<and>
   name (ex_district_units ! 1) = Str ''Unassigned'' \<and>
   lower (fillna ''Region'' (Some ''District'')) = ''district'' \<and>
   Some (Str ''Unassigned'') \<notin> set (map hr_district ex_hierarchy) \<and>
   Some (Str ''Unassigned'') \<notin> set (map hr_region ex_hierarchy) \<and>
   threshold (ex_district_units ! 1) = 0"
proof -
  have u: "ex_district_units ! 1 \<in> set ex_district_units"
    and n: "name (ex_district_units ! 1) = Str ''Unassigned''"
    by (simp_all add: ex_district_units_def)
  have l: "lower (fillna ''Region'' (Some ''District'')) = ''district''"
    by code_simp
  have d: "Some (Str ''Unassigned'') \<notin> set (map hr_district ex_hierarchy)"
    and r: "Some (Str ''Unassigned'') \<notin> set (map hr_region ex_hierarchy)"
    by (simp_all add: ex_hierarchy_def)
  from d r have h: "\<forall>r \<in> set ex_hierarchy. hr_district r \<noteq> Some (Str ''Unassigned'') \<and>
                             hr_region r \<noteq> Some (Str ''Unassigned'')"
    by (simp add: ex_hierarchy_def)
  from l have lt: "lower (fillna ''Region'' (Some ''District'')) \<noteq> ''territory''"
    by simp
  from unassigned_threshold [OF ex_data_district u n] lt h
  have "threshold (ex_district_units ! 1) = 0" by blast
  with ex_data_district u n l d r show ?thesis by (intro conjI)
qed

text \<open>
  Claim C5. At district level the threshold of the unit named \<open>D\<close> is the constant (250)
  times the number of distinct territories that the raw hierarchy lists under \<open>D\<close>, and it
  is 0 when the district count table has no key \<open>D\<close>.
\<close>

theorem district_threshold:
  assumes "lower s = ''district''"
    and "get_geospatial_data dt raises
           (load_and_process_data dt (Some zg) (Some cp) (Some h)) (Some s) = Inr units"
    and "u \<in> set units"
  shows "threshold u = TERRITORY_WORKLOAD_THRESHOLD *
           int (spec_distinct_territory_count hr_district h (name u)) \<and>
         (district_territory_counts h (name u) = None \<longrightarrow> threshold u = 0) \<and>
         TERRITORY_WORKLOAD_THRESHOLD = 250"
proof -
  let ?dc = "district_territory_counts h"
  from assms(1) have l: "lower (fillna ''Region'' (Some s)) = ''district''" by simp
  from assms(2) obtain aggregated
    where "units = map (\<lambda>d. with_threshold (mapped_threshold ?dc (d_name d)) d) aggregated"
    unfolding load_Some data_district [OF l] by (auto split: option.splits)
  with assms(3) have t: "threshold u = mapped_threshold ?dc (name u)"
    by auto
  have "mapped_threshold ?dc (name u) =
      TERRITORY_WORKLOAD_THRESHOLD * int (spec_distinct_territory_count hr_district h (name u))"
    unfolding district_territory_counts_def by (rule mapped_threshold_count)
  moreover have "?dc (name u) = None \<longrightarrow> mapped_threshold ?dc (name u) = 0"
    by (simp add: mapped_threshold_def)
  ultimately show ?thesis
    using t by (simp add: TERRITORY_WORKLOAD_THRESHOLD_def)
qed

theorem district_threshold_witness:
  "lower ''District'' = ''district'' \<and>
   get_geospatial_data int64 never_raises
     (load_and_process_data int64 (Some ex_shapefile) (Some ex_call_plan) (Some ex_hierarchy))
     (Some ''District'') = Inr ex_district_units \<and>
   ex_district_units ! 0 \<in> set ex_district_units \<and>
   name (ex_district_units ! 0) = Str ''D1'' \<and>
   spec_distinct_territory_count hr_district ex_hierarchy (Str ''D1'') = 3 \<and>
   threshold (ex_district_units ! 0) = 750"
proof -
  have l: "lower ''District'' = ''district''" by code_simp
  have u: "ex_district_units ! 0 \<in> set ex_district_units"
    and n: "name (ex_district_units ! 0) = Str ''D1''"
    and t: "threshold (ex_district_units ! 0) = 750"
    by (simp_all add: ex_district_units_def)
  from district_threshold [OF l ex_data_district u]
  have "spec_distinct_territory_count hr_district ex_hierarchy (Str ''D1'') = 3"
    by (simp add: n t TERRITORY_WORKLOAD_THRESHOLD_def)
  with l ex_data_district u n t show ?thesis by blast
qed

text \<open>
  Claim C6. At territory level every unit of the answer carries exactly the constant,
  250, whatever its name; the unit named "Unassigned" is no exception.
\<close>

theorem territory_threshold_constant:
  assumes "lower s = ''territory''"
    and "get_geospatial_data dt raises st (Some s) = Inr units"
    and "u \<in> set units"
  shows "threshold u = TERRITORY_WORKLOAD_THRESHOLD \<and> TERRITORY_WORKLOAD_THRESHOLD = 250"
proof -
  from data_loaded [OF assms(2)] obtain gdf dc rc where st: "st = (Some gdf, dc, rc)"
    by blast
  from assms(1) have l: "lower (fillna ''Region'' (Some s)) = ''territory''" by simp
  from assms(2) obtain aggregated
    where "units = map (with_threshold TERRITORY_WORKLOAD_THRESHOLD) aggregated"
    unfolding st data_territory [OF l] by (auto split: option.splits)
  with assms(3) show ?thesis
    by (auto simp add: TERRITORY_WORKLOAD_THRESHOLD_def)
qed

theorem territory_threshold_constant_witness:
  "lower ''territory'' = ''territory'' \<and>
   get_geospatial_data int64 never_raises
     (load_and_process_data int64 (Some ex_shapefile) (Some ex_call_plan) (Some ex_hierarchy))
     (Some ''territory'') = Inr ex_territory_units \<and>
   ex_territory_units ! 2 \<in> set ex_territory_units \<and>
   name (ex_territory_units ! 2) = Str ''Unassigned'' \<and>
   threshold (ex_territory_units ! 2) = 250"
proof -
  have l: "lower ''territory'' = ''territory''" by code_simp
  have u: "ex_territory_units ! 2 \<in> set ex_territory_units"
    and n: "name (ex_territory_units ! 2) = Str ''Unassigned''"
    by (simp_all add: ex_territory_units_def)
  from territory_threshold_constant [OF l ex_data_territory u]
  have "threshold (ex_territory_units ! 2) = 250" by simp
  with l ex_data_territory u n show ?thesis by blast
qed

section \<open>The level parameter\<close>

text \<open>
  Claim C2. The level parameter is read through \<open>lower\<close>, so two spellings with the same
  lower-case form give the same answer. A value that lowers to "territory", "district" or
  "region" is answered at that level: the master frame grouped by that column, with the
  constant, the district table or the region table for the thresholds. Every other value,
  "zone" among them, groups the master frame by zip with threshold 0; it is not reported
  as an error: the answer is an error only when the union of a group raises.
\<close>

theorem unrecognized_level_falls_back_to_zip:
  "(lower s = lower s' \<longrightarrow>
      get_geospatial_data dt raises st (Some s) = get_geospatial_data dt raises st (Some s')) \<and>
   (lower s = ''territory'' \<longrightarrow>
      get_geospatial_data dt raises (Some gdf, Some dc, Some rc) (Some s) =
        (case dissolve dt raises territory gdf of
           None \<Rightarrow> Inl (processing_error ''territory'')
         | Some aggregated \<Rightarrow>
             Inr (map (with_threshold TERRITORY_WORKLOAD_THRESHOLD) aggregated))) \<and>
   (lower s = ''district'' \<longrightarrow>
      get_geospatial_data dt raises (Some gdf, Some dc, Some rc) (Some s) =
        (case dissolve dt raises district gdf of
           None \<Rightarrow> Inl (processing_error ''district'')
         | Some aggregated \<Rightarrow>
             Inr (map (\<lambda>d. with_threshold (mapped_threshold dc (d_name d)) d) aggregated))) \<and>
   (lower s = ''region'' \<longrightarrow>
      get_geospatial_data dt raises (Some gdf, Some dc, Some rc) (Some s) =
        (case dissolve dt raises region gdf of
           None \<Rightarrow> Inl (processing_error ''region'')
         | Some aggregated \<Rightarrow>
             Inr (map (\<lambda>d. with_threshold (mapped_threshold rc (d_name d)) d) aggregated))) \<and>
   (lower s \<notin> {''territory'', ''district'', ''region''} \<longrightarrow>
      get_geospatial_data dt raises (Some gdf, Some dc, Some rc) (Some s) =
        (case dissolve dt raises zip_label gdf of
           None \<Rightarrow> Inl (processing_error (lower s))
         | Some aggregated \<Rightarrow> Inr (map (with_threshold 0) aggregated))) \<and>
   (lower s \<notin> {''territory'', ''district'', ''region''} \<longrightarrow>
      dissolve dt raises zip_label gdf \<noteq> None \<longrightarrow>
      (\<exists>units. get_geospatial_data dt raises (Some gdf, Some dc, Some rc) (Some s) =
         Inr units))"
proof -
  have a: "get_geospatial_data dt raises st (Some s) = get_geospatial_data dt raises st (Some s')"
    if "lower s = lower s'"
    using that by (intro data_level_cong) simp
  have t: "get_geospatial_data dt raises (Some gdf, Some dc, Some rc) (Some s) =
        (case dissolve dt raises territory gdf of
           None \<Rightarrow> Inl (processing_error ''territory'')
         | Some aggregated \<Rightarrow>
             Inr (map (with_threshold TERRITORY_WORKLOAD_THRESHOLD) aggregated))"
    if "lower s = ''territory''"
    using that by (intro data_territory) simp
  have d: "get_geospatial_data dt raises (Some gdf, Some dc, Some rc) (Some s) =
        (case dissolve dt raises district gdf of
           None \<Rightarrow> Inl (processing_error ''district'')
         | Some aggregated \<Rightarrow>
             Inr (map (\<lambda>d. with_threshold (mapped_threshold dc (d_name d)) d) aggregated))"
    if "lower s = ''district''"
    using that by (intro data_district) simp
  have r: "get_geospatial_data dt raises (Some gdf, Some dc, Some rc) (Some s) =
        (case dissolve dt raises region gdf of
           None \<Rightarrow> Inl (processing_error ''region'')
         | Some aggregated \<Rightarrow>
             Inr (map (\<lambda>d. with_threshold (mapped_threshold rc (d_name d)) d) aggregated))"
    if "lower s = ''region''"
    using that by (intro data_region) simp
  have z: "get_geospatial_data dt raises (Some gdf, Some dc, Some rc) (Some s) =
        (case dissolve dt raises zip_label gdf of
           None \<Rightarrow> Inl (processing_error (lower s))
         | Some aggregated \<Rightarrow> Inr (map (with_threshold 0) aggregated))"
    if "lower s \<notin> {''territory'', ''district'', ''region''}"
    using data_other [of "Some s" dt raises gdf "Some dc" "Some rc"] that
    by (simp cong: option.case_cong)
  have c: "\<exists>units. get_geospatial_data dt raises (Some gdf, Some dc, Some rc) (Some s) =
      Inr units"
    if "lower s \<notin> {''territory'', ''district'', ''region''}"
      and "dissolve dt raises zip_label gdf \<noteq> None"
    using z [OF that(1)] that(2) by auto
  from a t d r z c show ?thesis by (intro conjI impI)
qed

theorem unrecognized_level_falls_back_to_zip_witness:
  "lower ''County'' \<notin> {''territory'', ''district'', ''region''} \<and>
   lower ''County'' = lower ''COUNTY'' \<and>
   dissolve int64 never_raises zip_label ex_master \<noteq> None \<and>
   get_geospatial_data int64 never_raises
     (Some ex_master, Some (district_territory_counts ex_hierarchy),
      Some (region_territory_counts ex_hierarchy)) (Some ''COUNTY'') = Inr ex_zone_units \<and>
   lower ''TERRITORY'' = ''territory'' \<and>
   get_geospatial_data int64 never_raises
     (Some ex_master, Some (district_territory_counts ex_hierarchy),
      Some (region_territory_counts ex_hierarchy)) (Some ''TERRITORY'') =
     Inr ex_territory_units"
proof -
  let ?st = "(Some ex_master, Some (district_territory_counts ex_hierarchy),
        Some (region_territory_counts ex_hierarchy))"
  have l: "lower ''County'' \<notin> {''territory'', ''district'', ''region''}"
    by (simp add: lower_county)
  have e: "lower ''County'' = lower ''COUNTY''" by code_simp
  have d: "dissolve int64 never_raises zip_label ex_master \<noteq> None"
    by (simp add: ex_dissolve_zip)
  have u: "lower ''TERRITORY'' = ''territory''" by code_simp
  note c = unrecognized_level_falls_back_to_zip
    [of "''County''" "''COUNTY''" int64 never_raises ?st
      ex_master "district_territory_counts ex_hierarchy"
      "region_territory_counts ex_hierarchy"]
  from c e have "get_geospatial_data int64 never_raises ?st (Some ''COUNTY'') =
    get_geospatial_data int64 never_raises ?st (Some ''County'')"
    by simp
  also from c l have "\<dots> =
     (case dissolve int64 never_raises zip_label ex_master of
           None \<Rightarrow> Inl (processing_error (lower ''County''))
         | Some aggregated \<Rightarrow> Inr (map (with_threshold 0) aggregated))"
    by blast
  also have "\<dots> = Inr ex_zone_units"
    by (simp add: ex_dissolve_zip with_threshold_def ex_zone_units_def)
  finally have zone: "get_geospatial_data int64 never_raises ?st (Some ''COUNTY'') =
      Inr ex_zone_units" .
  note t = unrecognized_level_falls_back_to_zip
    [of "''TERRITORY''" "''TERRITORY''" int64 never_raises ?st
      ex_master "district_territory_counts ex_hierarchy"
      "region_territory_counts ex_hierarchy"]
  from t u have "get_geospatial_data int64 never_raises ?st (Some ''TERRITORY'') =
     (case dissolve int64 never_raises territory ex_master of
           None \<Rightarrow> Inl (processing_error ''territory'')
         | Some aggregated \<Rightarrow>
             Inr (map (with_threshold TERRITORY_WORKLOAD_THRESHOLD) aggregated))"
    by blast
  also have "\<dots> = Inr ex_territory_units"
    by (simp add: ex_dissolve_territory with_threshold_def ex_territory_units_def
        TERRITORY_WORKLOAD_THRESHOLD_def)
  finally have terr: "get_geospatial_data int64 never_raises ?st (Some ''TERRITORY'') =
      Inr ex_territory_units" .
  from l e d zone u terr show ?thesis by (intro conjI)
qed

text \<open>
  Claim C10. A request without a level parameter is answered as one with level "region":
  the master frame is grouped by its region column and the thresholds are read from the
  region count table.
\<close>

theorem missing_level_is_region:
  "get_geospatial_data dt raises st None = get_geospatial_data dt raises st (Some ''region'') \<and>
   get_geospatial_data dt raises (Some gdf, dc, Some rc) None =
     (case dissolve dt raises region gdf of
        None \<Rightarrow> Inl (processing_error ''region'')
      | Some aggregated \<Rightarrow>
          Inr (map (\<lambda>d. with_threshold (mapped_threshold rc (d_name d)) d) aggregated))"
proof -
  have l: "lower ''region'' = ''region''" by code_simp
  have "lower (fillna ''Region'' None) = lower (fillna ''Region'' (Some ''region''))"
    by (simp add: lower_Region l)
  then have "get_geospatial_data dt raises st None = get_geospatial_data dt raises st (Some ''region'')"
    by (rule data_level_cong)
  moreover have "lower (fillna ''Region'' None) = ''region''"
    by (simp add: lower_Region)
  ultimately show ?thesis
    by (simp add: data_region)
qed

theorem missing_level_is_region_witness:
  "get_geospatial_data int64 never_raises
     (load_and_process_data int64 (Some ex_shapefile) (Some ex_call_plan) (Some ex_hierarchy))
     None = Inr ex_region_units \<and>
   get_geospatial_data int64 never_raises
     (load_and_process_data int64 (Some ex_shapefile) (Some ex_call_plan) (Some ex_hierarchy))
     (Some ''region'') = Inr ex_region_units \<and>
   get_geospatial_data int64 never_raises
     (load_and_process_data int64 (Some ex_shapefile) (Some ex_call_plan) (Some ex_hierarchy))
     (Some ''zone'') = Inr ex_zone_units \<and>
   ex_region_units \<noteq> ex_zone_units"
proof -
  have z: "lower ''zone'' \<notin> {''territory'', ''district'', ''region''}"
    by (simp add: lower_zone)
  have "ex_region_units \<noteq> ex_zone_units"
    by (simp add: ex_region_units_def ex_zone_units_def)
  moreover from missing_level_is_region
    [of int64 never_raises "load_and_process_data int64 (Some ex_shapefile) (Some ex_call_plan)
       (Some ex_hierarchy)"]
  have "get_geospatial_data int64 never_raises
     (load_and_process_data int64 (Some ex_shapefile) (Some ex_call_plan) (Some ex_hierarchy))
     (Some ''region'') = Inr ex_region_units"
    by (simp add: ex_data_region)
  ultimately show ?thesis
    using ex_data_region ex_data_zone [OF z] by blast
qed

section \<open>The master frame and the count tables\<close>

text \<open>
  Claim C3. The zips of the master frame are exactly the zips that have both a geometry
  and a call-plan entry. A zip among them without a hierarchy row is kept, and the
  territory, district and region of its rows are all "Unassigned".
\<close>

theorem master_keeps_intersection:
  assumes "load_and_process_data dt (Some zg) (Some cp) (Some h) = (Some gdf, dc, rc)"
  shows "set (map ZCTA5CE20 gdf) = set (map zg_ZCTA5CE20 zg) \<inter> set (map cp_zip cp) \<and>
         (\<forall>r \<in> set gdf. ZCTA5CE20 r \<notin> set (map hr_zip h) \<longrightarrow>
            territory r = Str ''Unassigned'' \<and> district r = Str ''Unassigned'' \<and>
            region r = Str ''Unassigned'') \<and>
         (\<forall>z \<in> set (map zg_ZCTA5CE20 zg) \<inter> set (map cp_zip cp).
            z \<notin> set (map hr_zip h) \<longrightarrow>
            (\<exists>r \<in> set gdf. ZCTA5CE20 r = z \<and> territory r = Str ''Unassigned'' \<and>
               district r = Str ''Unassigned'' \<and> region r = Str ''Unassigned''))"
proof -
  from assms have gdf: "gdf = master_gdf zg (merged_df (zip_aggregations dt cp) h)"
    by (simp add: load_Some)
  have ids: "set (map ZCTA5CE20 gdf) = set (map zg_ZCTA5CE20 zg) \<inter> set (map cp_zip cp)"
    unfolding gdf by (rule master_ids)
  have filled: "territory r = Str ''Unassigned'' \<and> district r = Str ''Unassigned'' \<and>
      region r = Str ''Unassigned''"
    if "r \<in> set gdf" and "ZCTA5CE20 r \<notin> set (map hr_zip h)" for r
    using master_labels [OF that(1) [unfolded gdf]] that(2)
    by (auto simp add: image_iff)
  have kept: "\<exists>r \<in> set gdf. ZCTA5CE20 r = z \<and> territory r = Str ''Unassigned'' \<and>
      district r = Str ''Unassigned'' \<and> region r = Str ''Unassigned''"
    if "z \<in> set (map zg_ZCTA5CE20 zg) \<inter> set (map cp_zip cp)"
      and "z \<notin> set (map hr_zip h)" for z
  proof -
    from that(1) ids have "z \<in> set (map ZCTA5CE20 gdf)" by simp
    then obtain r where r: "r \<in> set gdf" "ZCTA5CE20 r = z" by auto
    with filled [of r] that(2) show ?thesis by blast
  qed
  from ids filled kept show ?thesis by blast
qed

theorem master_keeps_intersection_witness:
  "load_and_process_data int64 (Some ex_shapefile) (Some ex_call_plan) (Some ex_hierarchy) =
     (Some ex_master, Some (district_territory_counts ex_hierarchy),
      Some (region_territory_counts ex_hierarchy)) \<and>
   set (map zg_ZCTA5CE20 ex_shapefile) \<inter> set (map cp_zip ex_call_plan) =
     {''10001'', ''10002'', ''10003''} \<and>
   set (map ZCTA5CE20 ex_master) = {''10001'', ''10002'', ''10003''} \<and>
   ex_master ! 2 \<in> set ex_master \<and>
   ZCTA5CE20 (ex_master ! 2) = ''10003'' \<and>
   ''10003'' \<notin> set (map hr_zip ex_hierarchy) \<and>
   territory (ex_master ! 2) = Str ''Unassigned'' \<and>
   district (ex_master ! 2) = Str ''Unassigned'' \<and>
   region (ex_master ! 2) = Str ''Unassigned''"
proof -
  note t = master_keeps_intersection [OF ex_load]
  have m: "ex_master ! 2 \<in> set ex_master" and z: "ZCTA5CE20 (ex_master ! 2) = ''10003''"
    by (simp_all add: ex_master_def)
  have n: "''10003'' \<notin> set (map hr_zip ex_hierarchy)"
    by (simp add: ex_hierarchy_def)
  have s: "set (map ZCTA5CE20 ex_master) = {''10001'', ''10002'', ''10003''}"
    by (simp add: ex_master_def)
  from t s have i: "set (map zg_ZCTA5CE20 ex_shapefile) \<inter> set (map cp_zip ex_call_plan) =
     {''10001'', ''10002'', ''10003''}"
    by simp
  from t have "\<forall>r \<in> set ex_master. ZCTA5CE20 r \<notin> set (map hr_zip ex_hierarchy) \<longrightarrow>
            territory r = Str ''Unassigned'' \<and> district r = Str ''Unassigned'' \<and>
            region r = Str ''Unassigned''"
    by (elim conjE)
  with m z n have "territory (ex_master ! 2) = Str ''Unassigned'' \<and>
      district (ex_master ! 2) = Str ''Unassigned'' \<and> region (ex_master ! 2) = Str ''Unassigned''"
    by (elim ballE [of _ _ "ex_master ! 2"]) simp_all
  with ex_load i s m z n show ?thesis by (intro conjI) simp_all
qed

text \<open>
  Claim C4. The two count tables are computed from the rows of the hierarchy file alone:
  loading the same hierarchy with any other geometries and any other call plan, of
  whatever numeric type, gives the same tables, whichever zips the joins then drop. Each table has a key for every non-null
  name of its column and holds under it the number of distinct territories listed with
  that name.
\<close>

theorem counts_from_raw_hierarchy:
  "snd (load_and_process_data dt (Some zg) (Some cp) (Some h)) =
     (Some (district_territory_counts h), Some (region_territory_counts h)) \<and>
   snd (load_and_process_data dt (Some zg) (Some cp) (Some h)) =
     snd (load_and_process_data dt' (Some zg') (Some cp') (Some h)) \<and>
   district_territory_counts h D =
     (if \<exists>r \<in> set h. hr_district r = Some D
      then Some (spec_distinct_territory_count hr_district h D) else None) \<and>
   region_territory_counts h R =
     (if \<exists>r \<in> set h. hr_region r = Some R
      then Some (spec_distinct_territory_count hr_region h R) else None)"
  by (simp add: load_Some district_territory_counts_def region_territory_counts_def
      groupby_nunique_lookup)

theorem counts_from_raw_hierarchy_witness:
  "snd (load_and_process_data int64 (Some ex_shapefile) (Some ex_call_plan) (Some ex_hierarchy)) =
     snd (load_and_process_data float64 (Some ([] :: nat zip_geometry list)) (Some [])
            (Some ex_hierarchy)) \<and>
   Some (Str ''D1'') \<in> set (map hr_district ex_hierarchy) \<and>
   district_territory_counts ex_hierarchy (Str ''D1'') = Some 3 \<and>
   spec_distinct_territory_count hr_district ex_hierarchy (Str ''D1'') = 3 \<and>
   region_territory_counts ex_hierarchy (Str ''R1'') = Some 4"
proof -
  note t = counts_from_raw_hierarchy
    [of int64 ex_shapefile ex_call_plan ex_hierarchy float64 "[]" "[]" "Str ''D1''"
      "Str ''R1''"]
  have m: "Some (Str ''D1'') \<in> set (map hr_district ex_hierarchy)"
    by (simp add: ex_hierarchy_def)
  then have e: "\<exists>r \<in> set ex_hierarchy. hr_district r = Some (Str ''D1'')"
    by auto
  from t have "district_territory_counts ex_hierarchy (Str ''D1'') =
     (if \<exists>r \<in> set ex_hierarchy. hr_district r = Some (Str ''D1'')
      then Some (spec_distinct_territory_count hr_district ex_hierarchy (Str ''D1'')) else None)"
    by (elim conjE)
  with e have "district_territory_counts ex_hierarchy (Str ''D1'') =
      Some (spec_distinct_territory_count hr_district ex_hierarchy (Str ''D1''))"
    by simp
  then have c: "spec_distinct_territory_count hr_district ex_hierarchy (Str ''D1'') = 3"
    by (simp add: ex_dcounts_D1)
  from t have "snd (load_and_process_data int64 (Some ex_shapefile) (Some ex_call_plan)
      (Some ex_hierarchy)) =
     snd (load_and_process_data float64 (Some ([] :: nat zip_geometry list)) (Some [])
            (Some ex_hierarchy))"
    by (elim conjE)
  with m c ex_dcounts_D1 ex_rcounts_R1 show ?thesis by (intro conjI)
qed

section \<open>Dissolving by zip\<close>






section \<open>Conservation of the metrics\<close>

lemma total_int64_foldl: "foldl (+) a xs = a + sum_list xs" for a :: "64 word"
  by (induction xs arbitrary: a) (simp_all add: add.assoc)

lemma total_int64: "total int64 xs = sum_list xs"
  by (simp add: total_def int64_def total_int64_foldl)

text \<open>
  Claim C7, as the spec states it: at every level the calls of the units add up to the
  calls of the rows of the master frame. With fractional calls the column is float64, and
  a unit carries the floating-point sum of its group. On the float64 data set the one
  region-level unit carries 0.6, the double \<open>5404319552844595 / 2 ^ 53\<close>, while the calls
  0.1, 0.2 and 0.3 of the three rows add up to 0.6000000000000001, the double
  \<open>1351079888211149 / 2 ^ 51\<close>, when they are added in float64, and to a number that is
  no double when they are added exactly.
\<close>

theorem mass_conservation_float64_counterexample:
  "get_geospatial_data float64 never_raises
     (load_and_process_data float64 (Some ex_shapefile) (Some fx_call_plan) (Some fx_hierarchy))
     None = Inr fx_region_units \<and>
   fst (load_and_process_data float64 (Some ex_shapefile) (Some fx_call_plan)
     (Some fx_hierarchy)) = Some fx_master \<and>
   total float64 (map agg_calls fx_region_units) = Finite 5404319552844595 (- 53) \<and>
   total float64 (map calls fx_master) = Finite 1351079888211149 (- 51) \<and>
   total float64 (map agg_calls fx_region_units) \<noteq> total float64 (map calls fx_master) \<and>
   map f64_value (map agg_calls fx_region_units) = [Some (5404319552844595 / 2 ^ 53)] \<and>
   map f64_value (map calls fx_master) =
     [Some (3602879701896397 / 2 ^ 55), Some (3602879701896397 / 2 ^ 54),
      Some (5404319552844595 / 2 ^ 54)] \<and>
   (5404319552844595 / 2 ^ 53 :: rat) \<noteq>
     3602879701896397 / 2 ^ 55 + 3602879701896397 / 2 ^ 54 + 5404319552844595 / 2 ^ 54"
proof -
  have v: "map f64_value (map agg_calls fx_region_units) = [Some (5404319552844595 / 2 ^ 53)]"
    by (simp add: fx_region_units_def)
  have w: "map f64_value (map calls fx_master) =
     [Some (3602879701896397 / 2 ^ 55), Some (3602879701896397 / 2 ^ 54),
      Some (5404319552844595 / 2 ^ 54)]"
    by (simp add: fx_master_def)
  have x: "(5404319552844595 / 2 ^ 53 :: rat) \<noteq>
     3602879701896397 / 2 ^ 55 + 3602879701896397 / 2 ^ 54 + 5404319552844595 / 2 ^ 54"
    by simp
  have m: "fst (load_and_process_data float64 (Some ex_shapefile) (Some fx_call_plan)
     (Some fx_hierarchy)) = Some fx_master"
    by (simp add: fx_load)
  have n: "total float64 (map agg_calls fx_region_units) \<noteq> total float64 (map calls fx_master)"
    by (simp add: fx_total_units fx_total_master)
  from fx_data_region m fx_total_units fx_total_master n v w x show ?thesis
    by (intro conjI)
qed

text \<open>
  Claim C7, amended. At every level (whatever the level parameter, present or not), when
  \<open>/data\<close> answers with units, the hcp counts of the units (the spec's activity counts) add
  up to the hcp counts of the rows of the master frame, whatever the type of the calls
  column. The calls of the units add up to the calls of the rows when the column is
  int64; the sums are then those of int64, which wrap around. Dissolving puts every row
  into exactly one group.
\<close>

theorem mass_conservation:
  "(get_geospatial_data dt raises (Some gdf, dc, rc) level_arg = Inr units \<longrightarrow>
      sum_list (map agg_hcp_count units) = sum_list (map hcp_count gdf)) \<and>
   (get_geospatial_data int64 raises' (Some gdf', dc', rc') level_arg' = Inr units' \<longrightarrow>
      sum_list (map agg_calls units') = sum_list (map calls gdf') \<and>
      total int64 (map agg_calls units') = total int64 (map calls gdf'))"
proof -
  have h: "sum_list (map agg_hcp_count units) = sum_list (map hcp_count gdf)"
    if a: "get_geospatial_data dt raises (Some gdf, dc, rc) level_arg = Inr units"
  proof -
    from data_Inr [OF a] obtain "by" aggregated
      where d: "dissolve dt raises by gdf = Some aggregated"
        and h: "map agg_hcp_count units = map d_hcp_count aggregated"
      by blast
    show ?thesis
      by (simp add: h dissolve_hcp_count [OF d])
  qed
  have c: "sum_list (map agg_calls units') = sum_list (map calls gdf')"
    if a: "get_geospatial_data int64 raises' (Some gdf', dc', rc') level_arg' = Inr units'"
  proof -
    from data_Inr [OF a] obtain "by" aggregated
      where d: "dissolve int64 raises' by gdf' = Some aggregated"
        and c: "map agg_calls units' = map d_calls aggregated"
      by blast
    show ?thesis
      by (simp add: c dissolve_calls [OF d])
  qed
  from h c show ?thesis
    by (simp add: total_int64)
qed

theorem mass_conservation_witness:
  "get_geospatial_data int64 never_raises
     (Some ex_master, Some (district_territory_counts ex_hierarchy),
      Some (region_territory_counts ex_hierarchy)) (Some ''District'') = Inr ex_district_units \<and>
   sum_list (map agg_calls ex_district_units) = 285 \<and>
   sum_list (map calls ex_master) = 285 \<and>
   sum_list (map agg_hcp_count ex_district_units) = 4 \<and>
   sum_list (map hcp_count ex_master) = 4"
proof -
  note data = ex_data_district [unfolded ex_load]
  have "sum_list (map calls ex_master) = 285" and "sum_list (map hcp_count ex_master) = 4"
    by (simp_all add: ex_master_def)
  with mass_conservation [of int64 never_raises ex_master
      "Some (district_territory_counts ex_hierarchy)"
      "Some (region_territory_counts ex_hierarchy)" "Some ''District''" ex_district_units
      never_raises ex_master "Some (district_territory_counts ex_hierarchy)"
      "Some (region_territory_counts ex_hierarchy)" "Some ''District''" ex_district_units]
    data show ?thesis by simp
qed

section \<open>The names\<close>

text \<open>A list of strings is sorted without error, a list with a number and a string is not.\<close>

lemma py_sorted_text:
  assumes "\<forall>x \<in> set xs. is_str x"
  shows "py_sorted xs = Inr (sort_key label_key xs)"
proof -
  have "\<not> list_ex is_num xs"
  proof
    assume "list_ex is_num xs"
    then obtain x where "x \<in> set xs" "is_num x" by (auto simp add: list_ex_iff)
    with assms show False by (cases x) auto
  qed
  then show ?thesis by (simp add: py_sorted_def)
qed

lemma zip_label_text: "\<forall>x \<in> set (remdups (map zip_label gdf)). is_str x"
  by (auto simp add: zip_label_def)

text \<open>
  Claim C9. \<open>/names\<close> is to answer a dictionary with exactly four keys: region, district,
  territory, and the key of the zip level (the spec's zone level), which the source spells
  \<open>zip\<close>; each value the values of that column in the master frame, ascending and without
  repetition. The route does so when the labels are text. The label columns are not
  passed through \<open>astype(str)\<close> as the zip columns are, so a hierarchy file whose
  territories are numbers gives a territory column of numbers, \<open>fillna('Unassigned')\<close> puts
  a string into it for the zip without a hierarchy row, and \<open>sorted\<close> raises on the list
  of the two kinds: the route, which has no \<open>try\<close>, answers no dictionary.
\<close>

theorem names_type_error:
  "fst (load_and_process_data int64 (Some ex_shapefile) (Some ex_call_plan)
     (Some nx_hierarchy)) = Some nx_master \<and>
   map territory nx_master = [Num 101, Num 102, Str ''Unassigned''] \<and>
   get_all_names (fst (load_and_process_data int64 (Some ex_shapefile) (Some ex_call_plan)
     (Some nx_hierarchy))) = Inl TypeError"
  by (simp add: nx_load) (simp add: nx_master_def get_all_names_def py_sorted_def)

text \<open>
  With text labels throughout, the answer is the dictionary of the claim: four keys, each
  list in order and without repetition, and made of the values of its column in the
  frame after the joins.
\<close>

lemma names_of_text_labels:
  assumes "\<forall>r \<in> set gdf. is_str (region r) \<and> is_str (district r) \<and> is_str (territory r)"
  shows "\<exists>rs ds ts zs.
     get_all_names (Some gdf) =
       Inr [(''region'', rs), (''district'', ds), (''territory'', ts), (''zip'', zs)] \<and>
     sorted (map label_key rs) \<and> distinct rs \<and> set rs = region ` set gdf \<and>
     sorted (map label_key ds) \<and> distinct ds \<and> set ds = district ` set gdf \<and>
     sorted (map label_key ts) \<and> distinct ts \<and> set ts = territory ` set gdf \<and>
     sorted (map label_key zs) \<and> distinct zs \<and> set zs = zip_label ` set gdf"
proof -
  have r: "py_sorted (remdups (map region gdf)) =
      Inr (sort_key label_key (remdups (map region gdf)))"
    using assms by (intro py_sorted_text) auto
  have d: "py_sorted (remdups (map district gdf)) =
      Inr (sort_key label_key (remdups (map district gdf)))"
    using assms by (intro py_sorted_text) auto
  have t: "py_sorted (remdups (map territory gdf)) =
      Inr (sort_key label_key (remdups (map territory gdf)))"
    using assms by (intro py_sorted_text) auto
  have z: "py_sorted (remdups (map zip_label gdf)) =
      Inr (sort_key label_key (remdups (map zip_label gdf)))"
    by (intro py_sorted_text zip_label_text)
  show ?thesis
  proof (intro exI conjI)
    show "get_all_names (Some gdf) =
       Inr [(''region'', sort_key label_key (remdups (map region gdf))),
            (''district'', sort_key label_key (remdups (map district gdf))),
            (''territory'', sort_key label_key (remdups (map territory gdf))),
            (''zip'', sort_key label_key (remdups (map zip_label gdf)))]"
      by (simp add: get_all_names_def r d t z)
  qed simp_all
qed

end
